theory Spec2Isabelle
  imports Main
begin

section \<open>Python values obtained from JSON\<close>

text \<open>
  \<^verbatim>\<open>response.json()\<close> yields \<^verbatim>\<open>None\<close>, \<^verbatim>\<open>bool\<close>, \<^verbatim>\<open>int\<close>, \<^verbatim>\<open>float\<close>, \<^verbatim>\<open>str\<close>,
  \<^verbatim>\<open>list\<close> and \<^verbatim>\<open>dict\<close> values. A dict is the list of its items in insertion order
  (keys are distinct in a parsed dict; a lookup takes the first item of the key).
  A finite float is \<open>m * 2 ^ e\<close>, written \<open>JFloat m e\<close>. Python's strings are
  sequences of code points; here they are \<open>char list\<close>.
\<close>

datatype json =
    JNull
  | JBool bool
  | JInt int
  | JFloat int int
  | JString string
  | JArray "json list"
  | JObject "(string \<times> json) list"

type_synonym dict = "(string \<times> json) list"

text \<open>Python's truth value of an object, as used by \<^verbatim>\<open>if x:\<close> and \<^verbatim>\<open>x and y\<close>.\<close>

fun truthy :: "json \<Rightarrow> bool" where
  "truthy JNull = False"
| "truthy (JBool b) = b"
| "truthy (JInt n) = (n \<noteq> 0)"
| "truthy (JFloat m e) = (m \<noteq> 0)"
| "truthy (JString s) = (s \<noteq> [])"
| "truthy (JArray xs) = (xs \<noteq> [])"
| "truthy (JObject kvs) = (kvs \<noteq> [])"

fun type_name :: "json \<Rightarrow> string" where
  "type_name JNull = ''NoneType''"
| "type_name (JBool b) = ''bool''"
| "type_name (JInt n) = ''int''"
| "type_name (JFloat m e) = ''float''"
| "type_name (JString s) = ''str''"
| "type_name (JArray xs) = ''list''"
| "type_name (JObject kvs) = ''dict''"

section \<open>Exceptions (exceptions.py and the libraries' own)\<close>

text \<open>
  Every exception carries the text \<^verbatim>\<open>str(e)\<close> gives. \<^verbatim>\<open>MCPAtlassianNotFoundError\<close> is a
  subclass of \<^verbatim>\<open>MCPAtlassianError\<close>; \<^verbatim>\<open>MCPAtlassianAuthenticationError\<close> derives from
  \<^verbatim>\<open>Exception\<close> directly.
\<close>

datatype exn =
    MCPAtlassianAuthenticationError string
  | MCPAtlassianError string
  | MCPAtlassianNotFoundError string
  | AttributeError string
  | TypeError string
  | ValidationError string
  | HTTPStatusError string
  | JSONDecodeError string

fun str_exn :: "exn \<Rightarrow> string" where
  "str_exn (MCPAtlassianAuthenticationError m) = m"
| "str_exn (MCPAtlassianError m) = m"
| "str_exn (MCPAtlassianNotFoundError m) = m"
| "str_exn (AttributeError m) = m"
| "str_exn (TypeError m) = m"
| "str_exn (ValidationError m) = m"
| "str_exn (HTTPStatusError m) = m"
| "str_exn (JSONDecodeError m) = m"

text \<open>\<^verbatim>\<open>isinstance(e, MCPAtlassianError)\<close>, which is also
  \<^verbatim>\<open>isinstance(e, (MCPAtlassianNotFoundError, MCPAtlassianError))\<close>.\<close>

fun isinstance_MCPAtlassianError :: "exn \<Rightarrow> bool" where
  "isinstance_MCPAtlassianError (MCPAtlassianError m) = True"
| "isinstance_MCPAtlassianError (MCPAtlassianNotFoundError m) = True"
| "isinstance_MCPAtlassianError e = False"

fun isinstance_MCPAtlassianAuthenticationError :: "exn \<Rightarrow> bool" where
  "isinstance_MCPAtlassianAuthenticationError (MCPAtlassianAuthenticationError m) = True"
| "isinstance_MCPAtlassianAuthenticationError e = False"

section \<open>Dictionary access\<close>

text \<open>\<^verbatim>\<open>d.get(k, default)\<close> on a dict.\<close>

definition dict_get :: "dict \<Rightarrow> string \<Rightarrow> json \<Rightarrow> json" where
  "dict_get d k dflt = (case map_of d k of None \<Rightarrow> dflt | Some v \<Rightarrow> v)"

text \<open>\<^verbatim>\<open>x.get(k, default)\<close> on any value: only a dict has the attribute.\<close>

definition no_attribute_get :: "json \<Rightarrow> exn" where
  "no_attribute_get v =
     AttributeError ([CHR 0x27] @ type_name v @ [CHR 0x27] @ '' object has no attribute ''
                     @ [CHR 0x27] @ ''get'' @ [CHR 0x27])"

fun py_get :: "json \<Rightarrow> string \<Rightarrow> json \<Rightarrow> exn + json" where
  "py_get (JObject d) k dflt = Inr (dict_get d k dflt)"
| "py_get v k dflt = Inl (no_attribute_get v)"

text \<open>\<^verbatim>\<open>for x in v\<close>: a list gives its elements, a dict its keys, a string its
  characters; the other values are not iterable.\<close>

fun py_iter :: "json \<Rightarrow> exn + json list" where
  "py_iter (JArray xs) = Inr xs"
| "py_iter (JObject d) = Inr (map (\<lambda>kv. JString (fst kv)) d)"
| "py_iter (JString s) = Inr (map (\<lambda>c. JString [c]) s)"
| "py_iter v = Inl (TypeError ([CHR 0x27] @ type_name v @ [CHR 0x27] @ '' object is not iterable''))"

section \<open>What the sources import and src/ does not hold\<close>

text \<open>
  \<^item> \<open>format_timestamp\<close>: \<^verbatim>\<open>TimestampMixin.format_timestamp\<close> of
    \<^verbatim>\<open>mcp_atlassian.models.base\<close>, a function from the stored timestamp text to the
    formatted text.
  \<^item> \<open>lax_int\<close>: the conversion the model base class applies to a value that is not an
    \<^verbatim>\<open>int\<close> where a field is declared \<^verbatim>\<open>int\<close> (\<open>None\<close>: the value is refused).
  \<^item> \<open>validation_text\<close>: the text of the validation error of a model class (its name)
    for the keyword arguments given to the constructor.
\<close>

record library =
  format_timestamp :: "string \<Rightarrow> string"
  lax_int :: "json \<Rightarrow> int option"
  validation_text :: "string \<Rightarrow> dict \<Rightarrow> string"

text \<open>Modelled from the spec: the constant \<^verbatim>\<open>EMPTY_STRING\<close> of
  \<^verbatim>\<open>mcp_atlassian.models.constants\<close> is not in src/; "absent fields default to empty
  string".\<close>

definition EMPTY_STRING :: string where
  "EMPTY_STRING = []"

text \<open>Modelled from the spec: the base class \<^verbatim>\<open>ApiModel\<close> of
  \<^verbatim>\<open>mcp_atlassian.models.base\<close> is not in src/; the spec has "typed records" and
  "validated domain records". The constructor of a model class checks each argument
  against the type the class declares for the field: a \<^verbatim>\<open>str\<close> field takes a string,
  \<^verbatim>\<open>list[str]\<close> a list of strings, \<^verbatim>\<open>dict[str, Any]\<close> a dict, \<^verbatim>\<open>int\<close> an int or what
  \<open>lax_int\<close> converts, and \<^verbatim>\<open>T | None\<close> also \<^verbatim>\<open>None\<close>. \<open>None\<close> stands for a refused
  argument.\<close>

fun validate_str :: "json \<Rightarrow> string option" where
  "validate_str (JString s) = Some s"
| "validate_str v = None"

fun validate_opt_str :: "json \<Rightarrow> string option option" where
  "validate_opt_str JNull = Some None"
| "validate_opt_str (JString s) = Some (Some s)"
| "validate_opt_str v = None"

fun validate_int :: "library \<Rightarrow> json \<Rightarrow> int option" where
  "validate_int L (JInt n) = Some n"
| "validate_int L v = lax_int L v"

fun validate_opt_int :: "library \<Rightarrow> json \<Rightarrow> int option option" where
  "validate_opt_int L JNull = Some None"
| "validate_opt_int L (JInt n) = Some (Some n)"
| "validate_opt_int L v = map_option Some (lax_int L v)"

fun validate_str_list_items :: "json list \<Rightarrow> string list option" where
  "validate_str_list_items [] = Some []"
| "validate_str_list_items (v # vs) =
     (case validate_str v of
        None \<Rightarrow> None
      | Some s \<Rightarrow> map_option (\<lambda>ss. s # ss) (validate_str_list_items vs))"

fun validate_str_list :: "json \<Rightarrow> string list option" where
  "validate_str_list (JArray vs) = validate_str_list_items vs"
| "validate_str_list v = None"

fun validate_dict :: "json \<Rightarrow> dict option" where
  "validate_dict (JObject d) = Some d"
| "validate_dict v = None"

fun validate_opt_dict :: "json \<Rightarrow> dict option option" where
  "validate_opt_dict JNull = Some None"
| "validate_opt_dict (JObject d) = Some (Some d)"
| "validate_opt_dict v = None"

section \<open>models/zephyr/testcase.py\<close>

record ZephyrTestCase =
  key :: string
  name :: string
  project_key :: string
  status :: string
  priority :: string
  component :: "string option"
  owner :: "string option"
  estimated_time :: "int option"
  folder :: "string option"
  labels :: "string list"
  objective :: "string option"
  precondition :: "string option"
  test_script :: "dict option"
  parameters :: "dict option"
  custom_fields :: dict
  issue_links :: "string list"
  created_on :: string
  last_modified_on :: string
  created_by :: "string option"
  last_modified_by :: "string option"

text \<open>The keyword arguments \<^verbatim>\<open>from_api_response\<close> hands to \<^verbatim>\<open>cls(...)\<close>, in the
  order of the source.\<close>

definition testcase_kwargs :: "dict \<Rightarrow> dict" where
  "testcase_kwargs d =
    [(''key'', dict_get d ''key'' (JString EMPTY_STRING)),
     (''name'', dict_get d ''name'' (JString EMPTY_STRING)),
     (''project_key'', dict_get d ''projectKey'' (JString EMPTY_STRING)),
     (''status'', dict_get d ''status'' (JString EMPTY_STRING)),
     (''priority'', dict_get d ''priority'' (JString EMPTY_STRING)),
     (''component'', dict_get d ''component'' JNull),
     (''owner'', dict_get d ''owner'' JNull),
     (''estimated_time'', dict_get d ''estimatedTime'' JNull),
     (''folder'', dict_get d ''folder'' JNull),
     (''labels'', dict_get d ''labels'' (JArray [])),
     (''objective'', dict_get d ''objective'' JNull),
     (''precondition'', dict_get d ''precondition'' JNull),
     (''test_script'', dict_get d ''testScript'' JNull),
     (''parameters'', dict_get d ''parameters'' JNull),
     (''custom_fields'', dict_get d ''customFields'' (JObject [])),
     (''issue_links'', dict_get d ''issueLinks'' (JArray [])),
     (''created_on'', dict_get d ''createdOn'' (JString EMPTY_STRING)),
     (''last_modified_on'', dict_get d ''lastModifiedOn'' (JString EMPTY_STRING)),
     (''created_by'', dict_get d ''createdBy'' JNull),
     (''last_modified_by'', dict_get d ''lastModifiedBy'' JNull)]"

text \<open>\<^verbatim>\<open>cls(**kw)\<close> for \<^verbatim>\<open>ZephyrTestCase\<close>: every field checked against its declared
  type; \<open>None\<close> when an argument is refused.\<close>

definition ZephyrTestCase_init :: "library \<Rightarrow> dict \<Rightarrow> ZephyrTestCase option" where
  "ZephyrTestCase_init L kw =
    Option.bind (validate_str (dict_get kw ''key'' (JString EMPTY_STRING))) (\<lambda>v1.
    Option.bind (validate_str (dict_get kw ''name'' (JString EMPTY_STRING))) (\<lambda>v2.
    Option.bind (validate_str (dict_get kw ''project_key'' (JString EMPTY_STRING))) (\<lambda>v3.
    Option.bind (validate_str (dict_get kw ''status'' (JString EMPTY_STRING))) (\<lambda>v4.
    Option.bind (validate_str (dict_get kw ''priority'' (JString EMPTY_STRING))) (\<lambda>v5.
    Option.bind (validate_opt_str (dict_get kw ''component'' JNull)) (\<lambda>v6.
    Option.bind (validate_opt_str (dict_get kw ''owner'' JNull)) (\<lambda>v7.
    Option.bind (validate_opt_int L (dict_get kw ''estimated_time'' JNull)) (\<lambda>v8.
    Option.bind (validate_opt_str (dict_get kw ''folder'' JNull)) (\<lambda>v9.
    Option.bind (validate_str_list (dict_get kw ''labels'' (JArray []))) (\<lambda>v10.
    Option.bind (validate_opt_str (dict_get kw ''objective'' JNull)) (\<lambda>v11.
    Option.bind (validate_opt_str (dict_get kw ''precondition'' JNull)) (\<lambda>v12.
    Option.bind (validate_opt_dict (dict_get kw ''test_script'' JNull)) (\<lambda>v13.
    Option.bind (validate_opt_dict (dict_get kw ''parameters'' JNull)) (\<lambda>v14.
    Option.bind (validate_dict (dict_get kw ''custom_fields'' (JObject []))) (\<lambda>v15.
    Option.bind (validate_str_list (dict_get kw ''issue_links'' (JArray []))) (\<lambda>v16.
    Option.bind (validate_str (dict_get kw ''created_on'' (JString EMPTY_STRING))) (\<lambda>v17.
    Option.bind (validate_str (dict_get kw ''last_modified_on'' (JString EMPTY_STRING))) (\<lambda>v18.
    Option.bind (validate_opt_str (dict_get kw ''created_by'' JNull)) (\<lambda>v19.
    Option.bind (validate_opt_str (dict_get kw ''last_modified_by'' JNull)) (\<lambda>v20.
    Some \<lparr> key = v1, name = v2, project_key = v3, status = v4, priority = v5,
           component = v6, owner = v7, estimated_time = v8, folder = v9, labels = v10,
           objective = v11, precondition = v12, test_script = v13, parameters = v14,
           custom_fields = v15, issue_links = v16, created_on = v17,
           last_modified_on = v18, created_by = v19, last_modified_by = v20 \<rparr>
    ))))))))))))))))))))"

text \<open>\<^verbatim>\<open>ZephyrTestCase.from_api_response(data)\<close>: \<^verbatim>\<open>data.get\<close> raises on a value that
  is not a dict; the constructor raises when a field is refused.\<close>

fun ZephyrTestCase_from_api_response :: "library \<Rightarrow> json \<Rightarrow> exn + ZephyrTestCase" where
  "ZephyrTestCase_from_api_response L (JObject d) =
     (case ZephyrTestCase_init L (testcase_kwargs d) of
        None \<Rightarrow> Inl (ValidationError (validation_text L ''ZephyrTestCase'' (testcase_kwargs d)))
      | Some r \<Rightarrow> Inr r)"
| "ZephyrTestCase_from_api_response L v = Inl (no_attribute_get v)"

text \<open>An optional entry of the simplified dict: present when the condition holds.\<close>

definition opt_entry :: "bool \<Rightarrow> string \<Rightarrow> json \<Rightarrow> dict" where
  "opt_entry c k v = (if c then [(k, v)] else [])"

definition json_opt_str :: "string option \<Rightarrow> json" where
  "json_opt_str x = (case x of None \<Rightarrow> JNull | Some s \<Rightarrow> JString s)"

definition json_opt_int :: "int option \<Rightarrow> json" where
  "json_opt_int x = (case x of None \<Rightarrow> JNull | Some n \<Rightarrow> JInt n)"

definition json_opt_dict :: "dict option \<Rightarrow> json" where
  "json_opt_dict x = (case x of None \<Rightarrow> JNull | Some d \<Rightarrow> JObject d)"

definition json_str_list :: "string list \<Rightarrow> json" where
  "json_str_list xs = JArray (map JString xs)"

text \<open>\<^verbatim>\<open>ZephyrTestCase.to_simplified_dict\<close>: nine entries always, then the entries
  guarded by \<^verbatim>\<open>if self.f:\<close> (for \<^verbatim>\<open>estimated_time\<close>: \<^verbatim>\<open>is not None\<close>), in the order
  of the source.\<close>

definition ZephyrTestCase_to_simplified_dict :: "library \<Rightarrow> ZephyrTestCase \<Rightarrow> dict" where
  "ZephyrTestCase_to_simplified_dict L self =
    [(''key'', JString (key self)),
     (''name'', JString (name self)),
     (''project_key'', JString (project_key self)),
     (''status'', JString (status self)),
     (''priority'', JString (priority self)),
     (''folder'', json_opt_str (folder self)),
     (''labels'', json_str_list (labels self)),
     (''created_on'', JString (format_timestamp L (created_on self))),
     (''last_modified_on'', JString (format_timestamp L (last_modified_on self)))]
    @ opt_entry (truthy (json_opt_str (component self))) ''component'' (json_opt_str (component self))
    @ opt_entry (truthy (json_opt_str (owner self))) ''owner'' (json_opt_str (owner self))
    @ opt_entry (estimated_time self \<noteq> None) ''estimated_time'' (json_opt_int (estimated_time self))
    @ opt_entry (truthy (json_opt_str (objective self))) ''objective'' (json_opt_str (objective self))
    @ opt_entry (truthy (json_opt_str (precondition self))) ''precondition'' (json_opt_str (precondition self))
    @ opt_entry (truthy (json_opt_dict (test_script self))) ''test_script'' (json_opt_dict (test_script self))
    @ opt_entry (truthy (json_opt_dict (parameters self))) ''parameters'' (json_opt_dict (parameters self))
    @ opt_entry (truthy (JObject (custom_fields self))) ''custom_fields'' (JObject (custom_fields self))
    @ opt_entry (truthy (json_str_list (issue_links self))) ''issue_links'' (json_str_list (issue_links self))
    @ opt_entry (truthy (json_opt_str (created_by self))) ''created_by'' (json_opt_str (created_by self))
    @ opt_entry (truthy (json_opt_str (last_modified_by self))) ''last_modified_by'' (json_opt_str (last_modified_by self))"

section \<open>models/zephyr/test_step.py\<close>

record TestStep =
  order_id :: int
  step :: string
  data :: string
  result :: string
  step_id :: "int option"

text \<open>\<^verbatim>\<open>TestStep(**kw)\<close>: \<^verbatim>\<open>order_id\<close> and \<^verbatim>\<open>step\<close> have no default in the class, the
  others default to \<^verbatim>\<open>""\<close>, \<^verbatim>\<open>""\<close> and \<^verbatim>\<open>None\<close>.\<close>

definition TestStep_init :: "library \<Rightarrow> dict \<Rightarrow> exn + TestStep" where
  "TestStep_init L kw =
    (case
       Option.bind (Option.bind (map_of kw ''order_id'') (validate_int L)) (\<lambda>v1.
       Option.bind (Option.bind (map_of kw ''step'') validate_str) (\<lambda>v2.
       Option.bind (validate_str (dict_get kw ''data'' (JString []))) (\<lambda>v3.
       Option.bind (validate_str (dict_get kw ''result'' (JString []))) (\<lambda>v4.
       Option.bind (validate_opt_int L (dict_get kw ''step_id'' JNull)) (\<lambda>v5.
       Some \<lparr> order_id = v1, step = v2, data = v3, result = v4, step_id = v5 \<rparr>)))))
     of None \<Rightarrow> Inl (ValidationError (validation_text L ''TestStep'' kw))
      | Some s \<Rightarrow> Inr s)"



record ZephyrTestSteps =
  issue_id :: string
  project_id :: string
  steps :: "TestStep list"



section \<open>The transport (zephyr/client.py, zephyr/auth.py)\<close>

text \<open>
  A request as handed to the HTTP client; absent \<^verbatim>\<open>params\<close> is the empty list and
  absent \<^verbatim>\<open>json\<close> is \<open>None\<close>. A response carries its status code, the text of the
  status error the HTTP library raises for it, and its body as \<^verbatim>\<open>response.json()\<close>
  gives it (\<open>Inl\<close>: the text of the decoding error). The remote side answers a request
  knowing the requests made before; the client threads that list.
\<close>

record http_request =
  http_method :: string
  url :: string
  params :: dict
  json_payload :: "json option"
  headers :: "(string \<times> string) list"

record response =
  status_code :: int
  status_error_text :: string
  json_body :: "string + json"

datatype http_outcome = Transport_failure string | Responds response

type_synonym trace = "http_request list"
type_synonym remote = "trace \<Rightarrow> http_request \<Rightarrow> http_outcome"

record ZephyrConfig =
  api_token :: string
  base_url :: string

record ZephyrClient =
  config :: ZephyrConfig
  http_client :: bool

text \<open>\<^verbatim>\<open>ZephyrAuth.get_auth_headers\<close>.\<close>

definition get_auth_headers :: "ZephyrConfig \<Rightarrow> exn + (string \<times> string) list" where
  "get_auth_headers cfg =
    (if api_token cfg = [] then
       Inl (MCPAtlassianAuthenticationError ''Zephyr API token is required for authentication'')
     else Inr [(''Authorization'', ''Bearer '' @ api_token cfg),
               (''Content-Type'', ''application/json'')])"

text \<open>\<^verbatim>\<open>ZephyrClient.request\<close>: any exception of the HTTP client becomes an
  authentication error.\<close>

definition request ::
    "remote \<Rightarrow> ZephyrClient \<Rightarrow> string \<Rightarrow> string \<Rightarrow> dict \<Rightarrow> json option \<Rightarrow> trace
      \<Rightarrow> (exn + response) \<times> trace" where
  "request srv self m u ps js tr =
    (if \<not> http_client self then
       (Inl (MCPAtlassianAuthenticationError ''HTTP client not initialized''), tr)
     else
       (case get_auth_headers (config self) of
          Inl e \<Rightarrow> (Inl e, tr)
        | Inr hs \<Rightarrow>
           (let rq = \<lparr> http_method = m, url = u, params = ps, json_payload = js, headers = hs \<rparr> in
            (case srv tr rq of
               Transport_failure t \<Rightarrow>
                 (Inl (MCPAtlassianAuthenticationError (''Request failed: '' @ t)), tr @ [rq])
             | Responds r \<Rightarrow> (Inr r, tr @ [rq])))))"

text \<open>\<^verbatim>\<open>response.raise_for_status()\<close>: raises unless the status is 2xx.\<close>

definition raise_for_status :: "response \<Rightarrow> exn + unit" where
  "raise_for_status r =
    (if 200 \<le> status_code r \<and> status_code r \<le> 299 then Inr ()
     else Inl (HTTPStatusError (status_error_text r)))"

text \<open>\<^verbatim>\<open>response.json()\<close>.\<close>

definition response_json :: "response \<Rightarrow> exn + json" where
  "response_json r = (case json_body r of Inl t \<Rightarrow> Inl (JSONDecodeError t) | Inr j \<Rightarrow> Inr j)"

section \<open>String tests of the except clauses in client.py\<close>

text \<open>\<^verbatim>\<open>str.lower()\<close> on the letters A to Z; other characters are kept.\<close>

definition lower_char :: "char \<Rightarrow> char" where
  "lower_char c =
    (let n = (of_char c :: nat) in if 65 \<le> n \<and> n \<le> 90 then char_of (n + 32) else c)"

definition lower :: "string \<Rightarrow> string" where
  "lower s = map lower_char s"

fun starts_with :: "string \<Rightarrow> string \<Rightarrow> bool" where
  "starts_with [] s = True"
| "starts_with (p # ps) [] = False"
| "starts_with (p # ps) (c # cs) = (p = c \<and> starts_with ps cs)"

text \<open>\<^verbatim>\<open>sub in s\<close>.\<close>

fun contains :: "string \<Rightarrow> string \<Rightarrow> bool" where
  "contains sub [] = (sub = [])"
| "contains sub (c # cs) = (starts_with sub (c # cs) \<or> contains sub cs)"

definition mentions_authentication :: "exn \<Rightarrow> bool" where
  "mentions_authentication e =
    (contains ''authentication'' (lower (str_exn e)) \<or> contains ''401'' (str_exn e))"

section \<open>Test steps of a test case (zephyr/client.py)\<close>

text \<open>The body of the \<^verbatim>\<open>STEP_BY_STEP\<close> loop of \<^verbatim>\<open>get_test_steps\<close> at index \<open>i\<close> of
  \<^verbatim>\<open>enumerate(script_steps)\<close>.\<close>

fun script_step :: "library \<Rightarrow> nat \<Rightarrow> json \<Rightarrow> exn + TestStep" where
  "script_step L i (JObject d) =
     TestStep_init L
       [(''order_id'', JInt (int i + 1)),
        (''step'', dict_get d ''description'' (JString [])),
        (''data'', dict_get d ''testData'' (JString [])),
        (''result'', dict_get d ''expectedResult'' (JString [])),
        (''step_id'', dict_get d ''id'' JNull)]"
| "script_step L i v = Inl (no_attribute_get v)"

fun script_steps_loop :: "library \<Rightarrow> nat \<Rightarrow> json list \<Rightarrow> exn + TestStep list" where
  "script_steps_loop L i [] = Inr []"
| "script_steps_loop L i (step_data # rest) =
     (case script_step L i step_data of
        Inl e \<Rightarrow> Inl e
      | Inr s \<Rightarrow>
         (case script_steps_loop L (Suc i) rest of
            Inl e \<Rightarrow> Inl e
          | Inr ss \<Rightarrow> Inr (s # ss)))"

text \<open>"Extract steps from test script" in \<^verbatim>\<open>get_test_steps\<close>, from the decoded body
  \<open>d\<close> to the list \<^verbatim>\<open>steps\<close>.\<close>

definition extract_steps :: "library \<Rightarrow> json \<Rightarrow> exn + TestStep list" where
  "extract_steps L d =
    (case py_get d ''testScript'' (JObject []) of
       Inl e \<Rightarrow> Inl e
     | Inr script \<Rightarrow>
        if \<not> truthy script then Inr []
        else
          (case py_get script ''type'' JNull of
             Inl e \<Rightarrow> Inl e
           | Inr ty \<Rightarrow>
              if ty = JString ''STEP_BY_STEP'' then
                (case py_get script ''steps'' (JArray []) of
                   Inl e \<Rightarrow> Inl e
                 | Inr script_steps \<Rightarrow>
                    (case py_iter script_steps of
                       Inl e \<Rightarrow> Inl e
                     | Inr items \<Rightarrow> script_steps_loop L 0 items))
              else if ty = JString ''PLAIN_TEXT'' then
                (case py_get script ''text'' (JString []) of
                   Inl e \<Rightarrow> Inl e
                 | Inr text_content \<Rightarrow>
                    if truthy text_content then
                      (case TestStep_init L
                              [(''order_id'', JInt 1), (''step'', text_content),
                               (''data'', JString []), (''result'', JString []),
                               (''step_id'', JNull)] of
                         Inl e \<Rightarrow> Inl e
                       | Inr s \<Rightarrow> Inr [s])
                    else Inr [])
              else Inr []))"

text \<open>The except clause of \<^verbatim>\<open>get_test_steps\<close>.\<close>

definition get_test_steps_except :: "exn \<Rightarrow> exn" where
  "get_test_steps_except e =
    (if mentions_authentication e
     then MCPAtlassianAuthenticationError (''Authentication failed: '' @ str_exn e)
     else MCPAtlassianAuthenticationError (''Failed to get test steps: '' @ str_exn e))"

definition get_test_steps ::
    "library \<Rightarrow> remote \<Rightarrow> ZephyrClient \<Rightarrow> string \<Rightarrow> string \<Rightarrow> trace
      \<Rightarrow> (exn + ZephyrTestSteps) \<times> trace" where
  "get_test_steps L srv self issue project tr =
    (case request srv self ''GET'' (''/rest/atm/1.0/testcase/'' @ issue)
            [(''fields'', JString ''key,name,testScript'')] None tr of
       (Inl e, tr1) \<Rightarrow> (Inl (get_test_steps_except e), tr1)
     | (Inr rsp, tr1) \<Rightarrow>
        if status_code rsp = 404 then
          (Inr \<lparr> issue_id = issue, project_id = project, steps = [] \<rparr>, tr1)
        else
          (case raise_for_status rsp of
             Inl e \<Rightarrow> (Inl (get_test_steps_except e), tr1)
           | Inr u \<Rightarrow>
              (case response_json rsp of
                 Inl e \<Rightarrow> (Inl (get_test_steps_except e), tr1)
               | Inr d \<Rightarrow>
                  (case extract_steps L d of
                     Inl e \<Rightarrow> (Inl (get_test_steps_except e), tr1)
                   | Inr ss \<Rightarrow>
                      (Inr \<lparr> issue_id = issue, project_id = project, steps = ss \<rparr>, tr1)))))"










section \<open>Test case operations (zephyr/testcase.py)\<close>

text \<open>The except clauses: \<^verbatim>\<open>get\<close>, \<^verbatim>\<open>update\<close>, \<^verbatim>\<open>delete\<close> and \<^verbatim>\<open>search\<close> re-raise an
  \<^verbatim>\<open>MCPAtlassianError\<close> (which a not-found error is) and wrap the rest; \<^verbatim>\<open>create\<close> wraps
  whatever it catches.\<close>

definition get_testcase_except :: "exn \<Rightarrow> exn" where
  "get_testcase_except e =
    (if isinstance_MCPAtlassianError e then e
     else MCPAtlassianError (''Failed to get test case: '' @ str_exn e))"




definition search_testcases_except :: "exn \<Rightarrow> exn" where
  "search_testcases_except e =
    (if isinstance_MCPAtlassianError e then e
     else MCPAtlassianError (''Failed to search test cases: '' @ str_exn e))"

text \<open>\<^verbatim>\<open>if fields: params["fields"] = fields\<close>, for an optional string.\<close>

definition str_param :: "string \<Rightarrow> string option \<Rightarrow> dict" where
  "str_param k x = (case x of None \<Rightarrow> [] | Some s \<Rightarrow> if s = [] then [] else [(k, JString s)])"

definition get_testcase ::
    "library \<Rightarrow> remote \<Rightarrow> ZephyrClient \<Rightarrow> string \<Rightarrow> string option \<Rightarrow> trace
      \<Rightarrow> (exn + ZephyrTestCase) \<times> trace" where
  "get_testcase L srv self test_case_key flds tr =
    (case request srv self ''GET'' (''/testcase/'' @ test_case_key)
            (str_param ''fields'' flds) None tr of
       (Inl e, tr1) \<Rightarrow> (Inl (get_testcase_except e), tr1)
     | (Inr rsp, tr1) \<Rightarrow>
        if status_code rsp = 404 then
          (Inl (get_testcase_except
                  (MCPAtlassianNotFoundError (''Test case '' @ test_case_key @ '' not found''))),
           tr1)
        else
          (case raise_for_status rsp of
             Inl e \<Rightarrow> (Inl (get_testcase_except e), tr1)
           | Inr u \<Rightarrow>
              (case response_json rsp of
                 Inl e \<Rightarrow> (Inl (get_testcase_except e), tr1)
               | Inr d \<Rightarrow>
                  (case ZephyrTestCase_from_api_response L d of
                     Inl e \<Rightarrow> (Inl (get_testcase_except e), tr1)
                   | Inr r \<Rightarrow> (Inr r, tr1)))))"




text \<open>The parsing loop of \<^verbatim>\<open>search_testcases\<close>: an element that fails to parse is
  logged and skipped.\<close>

fun parse_test_cases :: "library \<Rightarrow> json list \<Rightarrow> ZephyrTestCase list" where
  "parse_test_cases L [] = []"
| "parse_test_cases L (test_case_data # rest) =
     (case ZephyrTestCase_from_api_response L test_case_data of
        Inl e \<Rightarrow> parse_test_cases L rest
      | Inr test_case \<Rightarrow> test_case # parse_test_cases L rest)"

text \<open>From the decoded body to the list the loop runs over: the body itself when it
  is a list, else \<^verbatim>\<open>result.get("results", [])\<close>.\<close>

fun test_case_data_list :: "json \<Rightarrow> exn + json" where
  "test_case_data_list (JArray xs) = Inr (JArray xs)"
| "test_case_data_list v = py_get v ''results'' (JArray [])"

definition search_params :: "string option \<Rightarrow> string option \<Rightarrow> int \<Rightarrow> int \<Rightarrow> dict" where
  "search_params query flds start_at max_results =
    str_param ''query'' query @ str_param ''fields'' flds
    @ (if start_at > 0 then [(''startAt'', JInt start_at)] else [])
    @ (if max_results \<noteq> 200 then [(''maxResults'', JInt max_results)] else [])"

definition search_testcases ::
    "library \<Rightarrow> remote \<Rightarrow> ZephyrClient \<Rightarrow> string option \<Rightarrow> string option \<Rightarrow> int \<Rightarrow> int
      \<Rightarrow> trace \<Rightarrow> (exn + ZephyrTestCase list) \<times> trace" where
  "search_testcases L srv self query flds start_at max_results tr =
    (case request srv self ''GET'' ''/testcase/search''
            (search_params query flds start_at max_results) None tr of
       (Inl e, tr1) \<Rightarrow> (Inl (search_testcases_except e), tr1)
     | (Inr rsp, tr1) \<Rightarrow>
        (case raise_for_status rsp of
           Inl e \<Rightarrow> (Inl (search_testcases_except e), tr1)
         | Inr u \<Rightarrow>
            (case response_json rsp of
               Inl e \<Rightarrow> (Inl (search_testcases_except e), tr1)
             | Inr res \<Rightarrow>
                (case test_case_data_list res of
                   Inl e \<Rightarrow> (Inl (search_testcases_except e), tr1)
                 | Inr lst \<Rightarrow>
                    (case py_iter lst of
                       Inl e \<Rightarrow> (Inl (search_testcases_except e), tr1)
                     | Inr items \<Rightarrow> (Inr (parse_test_cases L items), tr1))))))"

section \<open>Test result creation (zephyr/testresult.py)\<close>



section \<open>The search tool (servers/zephyr.py)\<close>

text \<open>The response data of the tool \<^verbatim>\<open>search_testcases\<close> before \<^verbatim>\<open>json.dumps\<close>;
  \<open>fetcher\<close> is what \<^verbatim>\<open>get_zephyr_fetcher(ctx)\<close> gives (it is not in src/).\<close>

definition search_testcases_tool ::
    "library \<Rightarrow> remote \<Rightarrow> exn + ZephyrClient \<Rightarrow> string option \<Rightarrow> string option \<Rightarrow> int \<Rightarrow> int
      \<Rightarrow> trace \<Rightarrow> dict \<times> trace" where
  "search_testcases_tool L srv fetcher query flds start_at max_results tr =
    (case fetcher of
       Inl e \<Rightarrow>
         ([(''success'', JBool False),
           (''error'', JString (''Failed to search test cases: '' @ str_exn e))], tr)
     | Inr zephyr \<Rightarrow>
        (case search_testcases L srv zephyr query flds start_at max_results tr of
           (Inl e, tr1) \<Rightarrow>
             ([(''success'', JBool False),
               (''error'', JString (''Failed to search test cases: '' @ str_exn e))], tr1)
         | (Inr test_cases, tr1) \<Rightarrow>
             (let results = map (\<lambda>tc. JObject (ZephyrTestCase_to_simplified_dict L tc)) test_cases
              in ([(''success'', JBool True),
                   (''test_cases'', JArray results),
                   (''count'', JInt (int (length results)))], tr1))))"

section \<open>Instances for evaluation\<close>

definition plain_library :: library where
  "plain_library =
    \<lparr> format_timestamp = id, lax_int = Map.empty,
      validation_text = (\<lambda>c kw. ''validation error for '' @ c) \<rparr>"

definition demo_client :: ZephyrClient where
  "demo_client = \<lparr> config = \<lparr> api_token = ''secret-token'', base_url = ''https://jira.example'' \<rparr>,
                   http_client = True \<rparr>"

definition json_response :: "int \<Rightarrow> json \<Rightarrow> response" where
  "json_response code body =
    \<lparr> status_code = code, status_error_text = ''status error'', json_body = Inr body \<rparr>"

text \<open>A remote side whose connection fails, one that always gives the same response,
  and one that answers a GET with the first response and any other request with the
  second.\<close>

definition failing_remote :: remote where
  "failing_remote tr rq = Transport_failure ''timed out''"

definition constant_remote :: "response \<Rightarrow> remote" where
  "constant_remote rsp tr rq = Responds rsp"


definition login_payload :: dict where
  "login_payload =
    [(''key'', JString ''JQA-T1234''), (''name'', JString ''Login''),
     (''projectKey'', JString ''JQA''), (''status'', JString ''Draft''),
     (''priority'', JString ''High'')]"

definition login_testcase :: ZephyrTestCase where
  "login_testcase =
    \<lparr> key = ''JQA-T1234'', name = ''Login'', project_key = ''JQA'', status = ''Draft'',
      priority = ''High'', component = None, owner = None, estimated_time = None,
      folder = None, labels = [], objective = None, precondition = None,
      test_script = None, parameters = None, custom_fields = [], issue_links = [],
      created_on = [], last_modified_on = [], created_by = None,
      last_modified_by = None \<rparr>"

definition owned_payload :: dict where
  "owned_payload = login_payload @ [(''owner'', JString ''alice''), (''estimatedTime'', JInt 0)]"

definition owned_testcase :: ZephyrTestCase where
  "owned_testcase = login_testcase \<lparr> owner := Some ''alice'', estimated_time := Some 0 \<rparr>"


text \<open>The keys \<^verbatim>\<open>to_simplified_dict\<close> of a test case adds under a condition.\<close>

definition conditional_keys :: "string list" where
  "conditional_keys =
    [''component'', ''owner'', ''estimated_time'', ''objective'', ''precondition'',
     ''test_script'', ''parameters'', ''custom_fields'', ''issue_links'', ''created_by'',
     ''last_modified_by'']"

definition four_elements :: "json list" where
  "four_elements =
    [JObject login_payload, JString ''not a test case'', JObject owned_payload,
     JObject login_payload]"

definition plain_text_body :: "string \<Rightarrow> json" where
  "plain_text_body t =
    JObject [(''key'', JString ''JQA-T1''),
             (''testScript'', JObject [(''type'', JString ''PLAIN_TEXT''), (''text'', JString t)])]"

definition bdd_body :: json where
  "bdd_body =
    JObject [(''key'', JString ''JQA-T1''),
             (''testScript'', JObject [(''type'', JString ''BDD''), (''text'', JString ''Given X'')])]"





section \<open>Test case records: parsing and simplification\<close>

lemma testcase_kwargs_get:
  "dict_get (testcase_kwargs d) ''key'' x = dict_get d ''key'' (JString EMPTY_STRING)"
  "dict_get (testcase_kwargs d) ''name'' x = dict_get d ''name'' (JString EMPTY_STRING)"
  "dict_get (testcase_kwargs d) ''project_key'' x = dict_get d ''projectKey'' (JString EMPTY_STRING)"
  "dict_get (testcase_kwargs d) ''status'' x = dict_get d ''status'' (JString EMPTY_STRING)"
  "dict_get (testcase_kwargs d) ''priority'' x = dict_get d ''priority'' (JString EMPTY_STRING)"
  "dict_get (testcase_kwargs d) ''component'' x = dict_get d ''component'' JNull"
  "dict_get (testcase_kwargs d) ''owner'' x = dict_get d ''owner'' JNull"
  "dict_get (testcase_kwargs d) ''estimated_time'' x = dict_get d ''estimatedTime'' JNull"
  "dict_get (testcase_kwargs d) ''folder'' x = dict_get d ''folder'' JNull"
  "dict_get (testcase_kwargs d) ''labels'' x = dict_get d ''labels'' (JArray [])"
  "dict_get (testcase_kwargs d) ''objective'' x = dict_get d ''objective'' JNull"
  "dict_get (testcase_kwargs d) ''precondition'' x = dict_get d ''precondition'' JNull"
  "dict_get (testcase_kwargs d) ''test_script'' x = dict_get d ''testScript'' JNull"
  "dict_get (testcase_kwargs d) ''parameters'' x = dict_get d ''parameters'' JNull"
  "dict_get (testcase_kwargs d) ''custom_fields'' x = dict_get d ''customFields'' (JObject [])"
  "dict_get (testcase_kwargs d) ''issue_links'' x = dict_get d ''issueLinks'' (JArray [])"
  "dict_get (testcase_kwargs d) ''created_on'' x = dict_get d ''createdOn'' (JString EMPTY_STRING)"
  "dict_get (testcase_kwargs d) ''last_modified_on'' x = dict_get d ''lastModifiedOn'' (JString EMPTY_STRING)"
  "dict_get (testcase_kwargs d) ''created_by'' x = dict_get d ''createdBy'' JNull"
  "dict_get (testcase_kwargs d) ''last_modified_by'' x = dict_get d ''lastModifiedBy'' JNull"
  by (simp_all add: testcase_kwargs_def dict_get_def)

lemma from_api_response_fields:
  assumes "ZephyrTestCase_from_api_response L (JObject d) = Inr r"
  shows "validate_str (dict_get d ''key'' (JString EMPTY_STRING)) = Some (key r)"
    and "validate_str (dict_get d ''name'' (JString EMPTY_STRING)) = Some (name r)"
    and "validate_str (dict_get d ''projectKey'' (JString EMPTY_STRING)) = Some (project_key r)"
    and "validate_str (dict_get d ''status'' (JString EMPTY_STRING)) = Some (status r)"
    and "validate_str (dict_get d ''priority'' (JString EMPTY_STRING)) = Some (priority r)"
    and "validate_opt_str (dict_get d ''component'' JNull) = Some (component r)"
    and "validate_opt_str (dict_get d ''owner'' JNull) = Some (owner r)"
    and "validate_opt_int L (dict_get d ''estimatedTime'' JNull) = Some (estimated_time r)"
    and "validate_opt_str (dict_get d ''folder'' JNull) = Some (folder r)"
    and "validate_str_list (dict_get d ''labels'' (JArray [])) = Some (labels r)"
    and "validate_opt_str (dict_get d ''objective'' JNull) = Some (objective r)"
    and "validate_opt_str (dict_get d ''precondition'' JNull) = Some (precondition r)"
    and "validate_opt_dict (dict_get d ''testScript'' JNull) = Some (test_script r)"
    and "validate_opt_dict (dict_get d ''parameters'' JNull) = Some (parameters r)"
    and "validate_dict (dict_get d ''customFields'' (JObject [])) = Some (custom_fields r)"
    and "validate_str_list (dict_get d ''issueLinks'' (JArray [])) = Some (issue_links r)"
    and "validate_str (dict_get d ''createdOn'' (JString EMPTY_STRING)) = Some (created_on r)"
    and "validate_str (dict_get d ''lastModifiedOn'' (JString EMPTY_STRING)) = Some (last_modified_on r)"
    and "validate_opt_str (dict_get d ''createdBy'' JNull) = Some (created_by r)"
    and "validate_opt_str (dict_get d ''lastModifiedBy'' JNull) = Some (last_modified_by r)"
proof -
  from assms have "ZephyrTestCase_init L (testcase_kwargs d) = Some r"
    by (simp split: option.splits)
  then have "\<exists>v1 v2 v3 v4 v5 v6 v7 v8 v9 v10 v11 v12 v13 v14 v15 v16 v17 v18 v19 v20.
      validate_str (dict_get d ''key'' (JString EMPTY_STRING)) = Some v1 \<and>
      validate_str (dict_get d ''name'' (JString EMPTY_STRING)) = Some v2 \<and>
      validate_str (dict_get d ''projectKey'' (JString EMPTY_STRING)) = Some v3 \<and>
      validate_str (dict_get d ''status'' (JString EMPTY_STRING)) = Some v4 \<and>
      validate_str (dict_get d ''priority'' (JString EMPTY_STRING)) = Some v5 \<and>
      validate_opt_str (dict_get d ''component'' JNull) = Some v6 \<and>
      validate_opt_str (dict_get d ''owner'' JNull) = Some v7 \<and>
      validate_opt_int L (dict_get d ''estimatedTime'' JNull) = Some v8 \<and>
      validate_opt_str (dict_get d ''folder'' JNull) = Some v9 \<and>
      validate_str_list (dict_get d ''labels'' (JArray [])) = Some v10 \<and>
      validate_opt_str (dict_get d ''objective'' JNull) = Some v11 \<and>
      validate_opt_str (dict_get d ''precondition'' JNull) = Some v12 \<and>
      validate_opt_dict (dict_get d ''testScript'' JNull) = Some v13 \<and>
      validate_opt_dict (dict_get d ''parameters'' JNull) = Some v14 \<and>
      validate_dict (dict_get d ''customFields'' (JObject [])) = Some v15 \<and>
      validate_str_list (dict_get d ''issueLinks'' (JArray [])) = Some v16 \<and>
      validate_str (dict_get d ''createdOn'' (JString EMPTY_STRING)) = Some v17 \<and>
      validate_str (dict_get d ''lastModifiedOn'' (JString EMPTY_STRING)) = Some v18 \<and>
      validate_opt_str (dict_get d ''createdBy'' JNull) = Some v19 \<and>
      validate_opt_str (dict_get d ''lastModifiedBy'' JNull) = Some v20 \<and>
      r = \<lparr> key = v1, name = v2, project_key = v3, status = v4, priority = v5,
           component = v6, owner = v7, estimated_time = v8, folder = v9, labels = v10,
           objective = v11, precondition = v12, test_script = v13, parameters = v14,
           custom_fields = v15, issue_links = v16, created_on = v17,
           last_modified_on = v18, created_by = v19, last_modified_by = v20 \<rparr>"
    unfolding ZephyrTestCase_init_def testcase_kwargs_get
    by (simp only: bind_eq_Some_conv) blast
  then obtain v1 v2 v3 v4 v5 v6 v7 v8 v9 v10 v11 v12 v13 v14 v15 v16 v17 v18 v19 v20 where
      "validate_str (dict_get d ''key'' (JString EMPTY_STRING)) = Some v1"
      "validate_str (dict_get d ''name'' (JString EMPTY_STRING)) = Some v2"
      "validate_str (dict_get d ''projectKey'' (JString EMPTY_STRING)) = Some v3"
      "validate_str (dict_get d ''status'' (JString EMPTY_STRING)) = Some v4"
      "validate_str (dict_get d ''priority'' (JString EMPTY_STRING)) = Some v5"
      "validate_opt_str (dict_get d ''component'' JNull) = Some v6"
      "validate_opt_str (dict_get d ''owner'' JNull) = Some v7"
      "validate_opt_int L (dict_get d ''estimatedTime'' JNull) = Some v8"
      "validate_opt_str (dict_get d ''folder'' JNull) = Some v9"
      "validate_str_list (dict_get d ''labels'' (JArray [])) = Some v10"
      "validate_opt_str (dict_get d ''objective'' JNull) = Some v11"
      "validate_opt_str (dict_get d ''precondition'' JNull) = Some v12"
      "validate_opt_dict (dict_get d ''testScript'' JNull) = Some v13"
      "validate_opt_dict (dict_get d ''parameters'' JNull) = Some v14"
      "validate_dict (dict_get d ''customFields'' (JObject [])) = Some v15"
      "validate_str_list (dict_get d ''issueLinks'' (JArray [])) = Some v16"
      "validate_str (dict_get d ''createdOn'' (JString EMPTY_STRING)) = Some v17"
      "validate_str (dict_get d ''lastModifiedOn'' (JString EMPTY_STRING)) = Some v18"
      "validate_opt_str (dict_get d ''createdBy'' JNull) = Some v19"
      "validate_opt_str (dict_get d ''lastModifiedBy'' JNull) = Some v20"
      "r = \<lparr> key = v1, name = v2, project_key = v3, status = v4, priority = v5,
           component = v6, owner = v7, estimated_time = v8, folder = v9, labels = v10,
           objective = v11, precondition = v12, test_script = v13, parameters = v14,
           custom_fields = v15, issue_links = v16, created_on = v17,
           last_modified_on = v18, created_by = v19, last_modified_by = v20 \<rparr>"
    by blast
  then show "validate_str (dict_get d ''key'' (JString EMPTY_STRING)) = Some (key r)"
    and "validate_str (dict_get d ''name'' (JString EMPTY_STRING)) = Some (name r)"
    and "validate_str (dict_get d ''projectKey'' (JString EMPTY_STRING)) = Some (project_key r)"
    and "validate_str (dict_get d ''status'' (JString EMPTY_STRING)) = Some (status r)"
    and "validate_str (dict_get d ''priority'' (JString EMPTY_STRING)) = Some (priority r)"
    and "validate_opt_str (dict_get d ''component'' JNull) = Some (component r)"
    and "validate_opt_str (dict_get d ''owner'' JNull) = Some (owner r)"
    and "validate_opt_int L (dict_get d ''estimatedTime'' JNull) = Some (estimated_time r)"
    and "validate_opt_str (dict_get d ''folder'' JNull) = Some (folder r)"
    and "validate_str_list (dict_get d ''labels'' (JArray [])) = Some (labels r)"
    and "validate_opt_str (dict_get d ''objective'' JNull) = Some (objective r)"
    and "validate_opt_str (dict_get d ''precondition'' JNull) = Some (precondition r)"
    and "validate_opt_dict (dict_get d ''testScript'' JNull) = Some (test_script r)"
    and "validate_opt_dict (dict_get d ''parameters'' JNull) = Some (parameters r)"
    and "validate_dict (dict_get d ''customFields'' (JObject [])) = Some (custom_fields r)"
    and "validate_str_list (dict_get d ''issueLinks'' (JArray [])) = Some (issue_links r)"
    and "validate_str (dict_get d ''createdOn'' (JString EMPTY_STRING)) = Some (created_on r)"
    and "validate_str (dict_get d ''lastModifiedOn'' (JString EMPTY_STRING)) = Some (last_modified_on r)"
    and "validate_opt_str (dict_get d ''createdBy'' JNull) = Some (created_by r)"
    and "validate_opt_str (dict_get d ''lastModifiedBy'' JNull) = Some (last_modified_by r)"
    by simp_all
qed

lemma login_parses:
  "ZephyrTestCase_from_api_response L (JObject login_payload) = Inr login_testcase"
  by (simp add: login_payload_def login_testcase_def testcase_kwargs_def ZephyrTestCase_init_def
      dict_get_def EMPTY_STRING_def)

lemma simplified_defs:
  "opt_entry False k v = []" "opt_entry True k v = [(k, v)]"
  "json_opt_str None = JNull" "json_opt_str (Some s) = JString s"
  "json_opt_int None = JNull" "json_opt_int (Some n) = JInt n"
  "json_opt_dict None = JNull" "json_opt_dict (Some d) = JObject d"
  "json_str_list xs = JArray (map JString xs)"
  by (simp_all add: opt_entry_def json_opt_str_def json_opt_int_def json_opt_dict_def
      json_str_list_def)

text \<open>
  Claim C4. The body \<^verbatim>\<open>{"key":"JQA-T1234","name":"Login","projectKey":"JQA",
  "status":"Draft","priority":"High"}\<close> parses to a test case whose simplified dict is
  exactly \<^verbatim>\<open>key, name, project_key, status, priority\<close> as given, \<^verbatim>\<open>folder\<close> null,
  \<^verbatim>\<open>labels\<close> empty, \<^verbatim>\<open>created_on\<close> and \<^verbatim>\<open>last_modified_on\<close> empty, and no other key,
  for every timestamp formatter that gives the empty text for the empty timestamp.
\<close>

theorem login_scenario:
  assumes "format_timestamp L [] = []"
  shows "\<exists>r. ZephyrTestCase_from_api_response L (JObject
            [(''key'', JString ''JQA-T1234''), (''name'', JString ''Login''),
             (''projectKey'', JString ''JQA''), (''status'', JString ''Draft''),
             (''priority'', JString ''High'')]) = Inr r
        \<and> ZephyrTestCase_to_simplified_dict L r =
            [(''key'', JString ''JQA-T1234''), (''name'', JString ''Login''),
             (''project_key'', JString ''JQA''), (''status'', JString ''Draft''),
             (''priority'', JString ''High''), (''folder'', JNull), (''labels'', JArray []),
             (''created_on'', JString []), (''last_modified_on'', JString [])]"
proof -
  have "ZephyrTestCase_to_simplified_dict L login_testcase =
            [(''key'', JString ''JQA-T1234''), (''name'', JString ''Login''),
             (''project_key'', JString ''JQA''), (''status'', JString ''Draft''),
             (''priority'', JString ''High''), (''folder'', JNull), (''labels'', JArray []),
             (''created_on'', JString []), (''last_modified_on'', JString [])]"
    using assms
    by (simp add: ZephyrTestCase_to_simplified_dict_def login_testcase_def simplified_defs)
  with login_parses [of L] show ?thesis
    unfolding login_payload_def by blast
qed

theorem login_scenario_witness:
  "format_timestamp plain_library [] = [] \<and>
   (\<exists>r. ZephyrTestCase_from_api_response plain_library (JObject
            [(''key'', JString ''JQA-T1234''), (''name'', JString ''Login''),
             (''projectKey'', JString ''JQA''), (''status'', JString ''Draft''),
             (''priority'', JString ''High'')]) = Inr r
        \<and> ZephyrTestCase_to_simplified_dict plain_library r =
            [(''key'', JString ''JQA-T1234''), (''name'', JString ''Login''),
             (''project_key'', JString ''JQA''), (''status'', JString ''Draft''),
             (''priority'', JString ''High''), (''folder'', JNull), (''labels'', JArray []),
             (''created_on'', JString []), (''last_modified_on'', JString [])])"
proof -
  have h: "format_timestamp plain_library [] = []"
    by (simp add: plain_library_def)
  from login_scenario [OF h] h show ?thesis by blast
qed

lemma dict_get_absent: "map_of d k = None \<Longrightarrow> dict_get d k x = x"
  by (simp add: dict_get_def)

lemma simplified_lookup:
  "map_of (ZephyrTestCase_to_simplified_dict L r) ''folder'' = Some (json_opt_str (folder r))"
  "map_of (ZephyrTestCase_to_simplified_dict L r) ''labels'' = Some (json_str_list (labels r))"
  "map_of (ZephyrTestCase_to_simplified_dict L r) ''created_on'' =
     Some (JString (format_timestamp L (created_on r)))"
  "map_of (ZephyrTestCase_to_simplified_dict L r) ''last_modified_on'' =
     Some (JString (format_timestamp L (last_modified_on r)))"
  "map_of (ZephyrTestCase_to_simplified_dict L r) ''component'' =
     (if truthy (json_opt_str (component r)) then Some (json_opt_str (component r)) else None)"
  "map_of (ZephyrTestCase_to_simplified_dict L r) ''owner'' =
     (if truthy (json_opt_str (owner r)) then Some (json_opt_str (owner r)) else None)"
  "map_of (ZephyrTestCase_to_simplified_dict L r) ''estimated_time'' =
     (if estimated_time r \<noteq> None then Some (json_opt_int (estimated_time r)) else None)"
  "map_of (ZephyrTestCase_to_simplified_dict L r) ''objective'' =
     (if truthy (json_opt_str (objective r)) then Some (json_opt_str (objective r)) else None)"
  "map_of (ZephyrTestCase_to_simplified_dict L r) ''precondition'' =
     (if truthy (json_opt_str (precondition r)) then Some (json_opt_str (precondition r)) else None)"
  "map_of (ZephyrTestCase_to_simplified_dict L r) ''test_script'' =
     (if truthy (json_opt_dict (test_script r)) then Some (json_opt_dict (test_script r)) else None)"
  "map_of (ZephyrTestCase_to_simplified_dict L r) ''parameters'' =
     (if truthy (json_opt_dict (parameters r)) then Some (json_opt_dict (parameters r)) else None)"
  "map_of (ZephyrTestCase_to_simplified_dict L r) ''custom_fields'' =
     (if truthy (JObject (custom_fields r)) then Some (JObject (custom_fields r)) else None)"
  "map_of (ZephyrTestCase_to_simplified_dict L r) ''issue_links'' =
     (if truthy (json_str_list (issue_links r)) then Some (json_str_list (issue_links r)) else None)"
  "map_of (ZephyrTestCase_to_simplified_dict L r) ''created_by'' =
     (if truthy (json_opt_str (created_by r)) then Some (json_opt_str (created_by r)) else None)"
  "map_of (ZephyrTestCase_to_simplified_dict L r) ''last_modified_by'' =
     (if truthy (json_opt_str (last_modified_by r)) then Some (json_opt_str (last_modified_by r)) else None)"
  by (simp_all add: ZephyrTestCase_to_simplified_dict_def opt_entry_def)

lemma truthy_not_null: "truthy v \<Longrightarrow> v \<noteq> JNull"
  by auto

lemma guarded_entry:
  "(if truthy x then Some x else None) = Some v \<Longrightarrow> v \<noteq> JNull \<and> truthy v"
  by (cases "truthy x") auto

lemma conditional_entry_not_null:
  assumes "k \<in> set conditional_keys"
    and "map_of (ZephyrTestCase_to_simplified_dict L r) k = Some v"
  shows "v \<noteq> JNull \<and> (truthy v \<or> k = ''estimated_time'')"
proof -
  from assms(1) have "k = ''component'' \<or> k = ''owner'' \<or> k = ''estimated_time''
    \<or> k = ''objective'' \<or> k = ''precondition'' \<or> k = ''test_script'' \<or> k = ''parameters''
    \<or> k = ''custom_fields'' \<or> k = ''issue_links'' \<or> k = ''created_by''
    \<or> k = ''last_modified_by''"
    by (simp only: conditional_keys_def list.set insert_iff empty_iff simp_thms)
  then show ?thesis
  proof (elim disjE, goal_cases)
    case 1
    with assms(2) show ?thesis by (simp only: simplified_lookup) (metis guarded_entry)
  next
    case 2
    with assms(2) show ?thesis by (simp only: simplified_lookup) (metis guarded_entry)
  next
    case 3
    with assms(2) have "(if estimated_time r \<noteq> None then Some (json_opt_int (estimated_time r))
        else None) = Some v"
      by (simp only: simplified_lookup)
    then have "v \<noteq> JNull"
      by (cases "estimated_time r") (auto simp: json_opt_int_def)
    with 3 show ?thesis by simp
  next
    case 4
    with assms(2) show ?thesis by (simp only: simplified_lookup) (metis guarded_entry)
  next
    case 5
    with assms(2) show ?thesis by (simp only: simplified_lookup) (metis guarded_entry)
  next
    case 6
    with assms(2) show ?thesis by (simp only: simplified_lookup) (metis guarded_entry)
  next
    case 7
    with assms(2) show ?thesis by (simp only: simplified_lookup) (metis guarded_entry)
  next
    case 8
    with assms(2) show ?thesis by (simp only: simplified_lookup) (metis guarded_entry)
  next
    case 9
    with assms(2) show ?thesis by (simp only: simplified_lookup) (metis guarded_entry)
  next
    case 10
    with assms(2) show ?thesis by (simp only: simplified_lookup) (metis guarded_entry)
  next
    case 11
    with assms(2) show ?thesis by (simp only: simplified_lookup) (metis guarded_entry)
  qed
qed


lemma absent_default_omitted:
  assumes "ZephyrTestCase_from_api_response L (JObject d) = Inr r"
  shows "map_of d ''component'' = None \<Longrightarrow>
           component r = None \<and> map_of (ZephyrTestCase_to_simplified_dict L r) ''component'' = None"
    and "map_of d ''owner'' = None \<Longrightarrow>
           owner r = None \<and> map_of (ZephyrTestCase_to_simplified_dict L r) ''owner'' = None"
    and "map_of d ''estimatedTime'' = None \<Longrightarrow>
           estimated_time r = None
           \<and> map_of (ZephyrTestCase_to_simplified_dict L r) ''estimated_time'' = None"
    and "map_of d ''objective'' = None \<Longrightarrow>
           objective r = None \<and> map_of (ZephyrTestCase_to_simplified_dict L r) ''objective'' = None"
    and "map_of d ''precondition'' = None \<Longrightarrow>
           precondition r = None
           \<and> map_of (ZephyrTestCase_to_simplified_dict L r) ''precondition'' = None"
    and "map_of d ''testScript'' = None \<Longrightarrow>
           test_script r = None
           \<and> map_of (ZephyrTestCase_to_simplified_dict L r) ''test_script'' = None"
    and "map_of d ''parameters'' = None \<Longrightarrow>
           parameters r = None
           \<and> map_of (ZephyrTestCase_to_simplified_dict L r) ''parameters'' = None"
    and "map_of d ''customFields'' = None \<Longrightarrow>
           custom_fields r = []
           \<and> map_of (ZephyrTestCase_to_simplified_dict L r) ''custom_fields'' = None"
    and "map_of d ''issueLinks'' = None \<Longrightarrow>
           issue_links r = []
           \<and> map_of (ZephyrTestCase_to_simplified_dict L r) ''issue_links'' = None"
    and "map_of d ''createdBy'' = None \<Longrightarrow>
           created_by r = None
           \<and> map_of (ZephyrTestCase_to_simplified_dict L r) ''created_by'' = None"
    and "map_of d ''lastModifiedBy'' = None \<Longrightarrow>
           last_modified_by r = None
           \<and> map_of (ZephyrTestCase_to_simplified_dict L r) ''last_modified_by'' = None"
  using from_api_response_fields [OF assms]
  by (simp_all add: dict_get_absent simplified_lookup json_opt_str_def json_opt_int_def
      json_opt_dict_def json_str_list_def)

lemma absent_default_kept:
  assumes "ZephyrTestCase_from_api_response L (JObject d) = Inr r"
  shows "map_of d ''folder'' = None \<Longrightarrow>
           folder r = None \<and> map_of (ZephyrTestCase_to_simplified_dict L r) ''folder'' = Some JNull"
    and "map_of d ''labels'' = None \<Longrightarrow>
           labels r = []
           \<and> map_of (ZephyrTestCase_to_simplified_dict L r) ''labels'' = Some (JArray [])"
    and "map_of d ''createdOn'' = None \<Longrightarrow>
           created_on r = []
           \<and> map_of (ZephyrTestCase_to_simplified_dict L r) ''created_on'' =
               Some (JString (format_timestamp L []))"
    and "map_of d ''lastModifiedOn'' = None \<Longrightarrow>
           last_modified_on r = []
           \<and> map_of (ZephyrTestCase_to_simplified_dict L r) ''last_modified_on'' =
               Some (JString (format_timestamp L []))"
  using from_api_response_fields [OF assms]
  by (simp_all add: dict_get_absent simplified_lookup json_opt_str_def json_str_list_def
      EMPTY_STRING_def)

lemma simplified_lookup_fixed:
  "map_of (ZephyrTestCase_to_simplified_dict L r) ''key'' = Some (JString (key r))"
  "map_of (ZephyrTestCase_to_simplified_dict L r) ''name'' = Some (JString (name r))"
  "map_of (ZephyrTestCase_to_simplified_dict L r) ''project_key'' = Some (JString (project_key r))"
  "map_of (ZephyrTestCase_to_simplified_dict L r) ''status'' = Some (JString (status r))"
  "map_of (ZephyrTestCase_to_simplified_dict L r) ''priority'' = Some (JString (priority r))"
  by (simp_all add: ZephyrTestCase_to_simplified_dict_def)

lemma simplified_explicit:
  "map_of (ZephyrTestCase_to_simplified_dict L r) ''key'' =
     Some (JString (key r))"
  "map_of (ZephyrTestCase_to_simplified_dict L r) ''name'' =
     Some (JString (name r))"
  "map_of (ZephyrTestCase_to_simplified_dict L r) ''project_key'' =
     Some (JString (project_key r))"
  "map_of (ZephyrTestCase_to_simplified_dict L r) ''status'' =
     Some (JString (status r))"
  "map_of (ZephyrTestCase_to_simplified_dict L r) ''priority'' =
     Some (JString (priority r))"
  "map_of (ZephyrTestCase_to_simplified_dict L r) ''folder'' =
     Some (case folder r of None \<Rightarrow> JNull | Some s \<Rightarrow> JString s)"
  "map_of (ZephyrTestCase_to_simplified_dict L r) ''labels'' =
     Some (JArray (map JString (labels r)))"
  "map_of (ZephyrTestCase_to_simplified_dict L r) ''created_on'' =
     Some (JString (format_timestamp L (created_on r)))"
  "map_of (ZephyrTestCase_to_simplified_dict L r) ''last_modified_on'' =
     Some (JString (format_timestamp L (last_modified_on r)))"
  "map_of (ZephyrTestCase_to_simplified_dict L r) ''component'' =
     (case component r of None \<Rightarrow> None | Some s \<Rightarrow> if s = [] then None else Some (JString s))"
  "map_of (ZephyrTestCase_to_simplified_dict L r) ''owner'' =
     (case owner r of None \<Rightarrow> None | Some s \<Rightarrow> if s = [] then None else Some (JString s))"
  "map_of (ZephyrTestCase_to_simplified_dict L r) ''estimated_time'' =
     (case estimated_time r of None \<Rightarrow> None | Some n \<Rightarrow> Some (JInt n))"
  "map_of (ZephyrTestCase_to_simplified_dict L r) ''objective'' =
     (case objective r of None \<Rightarrow> None | Some s \<Rightarrow> if s = [] then None else Some (JString s))"
  "map_of (ZephyrTestCase_to_simplified_dict L r) ''precondition'' =
     (case precondition r of None \<Rightarrow> None | Some s \<Rightarrow> if s = [] then None else Some (JString s))"
  "map_of (ZephyrTestCase_to_simplified_dict L r) ''test_script'' =
     (case test_script r of None \<Rightarrow> None | Some c \<Rightarrow> if c = [] then None else Some (JObject c))"
  "map_of (ZephyrTestCase_to_simplified_dict L r) ''parameters'' =
     (case parameters r of None \<Rightarrow> None | Some c \<Rightarrow> if c = [] then None else Some (JObject c))"
  "map_of (ZephyrTestCase_to_simplified_dict L r) ''custom_fields'' =
     (if custom_fields r = [] then None else Some (JObject (custom_fields r)))"
  "map_of (ZephyrTestCase_to_simplified_dict L r) ''issue_links'' =
     (if issue_links r = [] then None else Some (JArray (map JString (issue_links r))))"
  "map_of (ZephyrTestCase_to_simplified_dict L r) ''created_by'' =
     (case created_by r of None \<Rightarrow> None | Some s \<Rightarrow> if s = [] then None else Some (JString s))"
  "map_of (ZephyrTestCase_to_simplified_dict L r) ''last_modified_by'' =
     (case last_modified_by r of None \<Rightarrow> None | Some s \<Rightarrow> if s = [] then None else Some (JString s))"
  by (simp_all add: simplified_lookup simplified_lookup_fixed simplified_defs split: option.splits)

lemma required_defaults:
  assumes "ZephyrTestCase_from_api_response L (JObject d) = Inr r"
  shows "map_of d ''key'' = None \<Longrightarrow> key r = []"
    and "map_of d ''name'' = None \<Longrightarrow> name r = []"
    and "map_of d ''projectKey'' = None \<Longrightarrow> project_key r = []"
    and "map_of d ''status'' = None \<Longrightarrow> status r = []"
    and "map_of d ''priority'' = None \<Longrightarrow> priority r = []"
  using from_api_response_fields [OF assms]
  by (simp_all add: dict_get_absent EMPTY_STRING_def)

text \<open>
  Claim C2, as amended. For every dict payload that \<^verbatim>\<open>from_api_response\<close> accepts, each of
  the twenty fields whose JSON key is absent holds its default. \<^verbatim>\<open>to_simplified_dict\<close>
  always holds \<^verbatim>\<open>key\<close>, \<^verbatim>\<open>name\<close>, \<^verbatim>\<open>project_key\<close>, \<^verbatim>\<open>status\<close>, \<^verbatim>\<open>priority\<close>, \<^verbatim>\<open>folder\<close> (null
  when the field is \<^verbatim>\<open>None\<close>), \<^verbatim>\<open>labels\<close>, \<^verbatim>\<open>created_on\<close> and \<^verbatim>\<open>last_modified_on\<close>. Each of
  \<^verbatim>\<open>component\<close>, \<^verbatim>\<open>owner\<close>, \<^verbatim>\<open>estimated_time\<close>, \<^verbatim>\<open>objective\<close>, \<^verbatim>\<open>precondition\<close>,
  \<^verbatim>\<open>test_script\<close>, \<^verbatim>\<open>parameters\<close>, \<^verbatim>\<open>custom_fields\<close>, \<^verbatim>\<open>issue_links\<close>, \<^verbatim>\<open>created_by\<close> and
  \<^verbatim>\<open>last_modified_by\<close> is there exactly when its field is non-empty (\<^verbatim>\<open>estimated_time\<close>:
  not \<^verbatim>\<open>None\<close>, so also 0), with the field as value and never null; left at its default
  it is omitted.
\<close>

theorem defaults_and_omission:
  assumes "ZephyrTestCase_from_api_response L (JObject d) = Inr r"
    and "out = ZephyrTestCase_to_simplified_dict L r"
  shows
   "(map_of d ''component'' = None \<longrightarrow> component r = None \<and> map_of out ''component'' = None)
  \<and> (map_of d ''owner'' = None \<longrightarrow> owner r = None \<and> map_of out ''owner'' = None)
  \<and> (map_of d ''estimatedTime'' = None \<longrightarrow>
       estimated_time r = None \<and> map_of out ''estimated_time'' = None)
  \<and> (map_of d ''objective'' = None \<longrightarrow> objective r = None \<and> map_of out ''objective'' = None)
  \<and> (map_of d ''precondition'' = None \<longrightarrow>
       precondition r = None \<and> map_of out ''precondition'' = None)
  \<and> (map_of d ''testScript'' = None \<longrightarrow> test_script r = None \<and> map_of out ''test_script'' = None)
  \<and> (map_of d ''parameters'' = None \<longrightarrow> parameters r = None \<and> map_of out ''parameters'' = None)
  \<and> (map_of d ''customFields'' = None \<longrightarrow>
       custom_fields r = [] \<and> map_of out ''custom_fields'' = None)
  \<and> (map_of d ''issueLinks'' = None \<longrightarrow> issue_links r = [] \<and> map_of out ''issue_links'' = None)
  \<and> (map_of d ''createdBy'' = None \<longrightarrow> created_by r = None \<and> map_of out ''created_by'' = None)
  \<and> (map_of d ''lastModifiedBy'' = None \<longrightarrow>
       last_modified_by r = None \<and> map_of out ''last_modified_by'' = None)
  \<and> (map_of d ''folder'' = None \<longrightarrow> folder r = None \<and> map_of out ''folder'' = Some JNull)
  \<and> (map_of d ''labels'' = None \<longrightarrow> labels r = [] \<and> map_of out ''labels'' = Some (JArray []))
  \<and> (map_of d ''createdOn'' = None \<longrightarrow>
       created_on r = [] \<and> map_of out ''created_on'' = Some (JString (format_timestamp L [])))
  \<and> (map_of d ''lastModifiedOn'' = None \<longrightarrow>
       last_modified_on r = []
       \<and> map_of out ''last_modified_on'' = Some (JString (format_timestamp L [])))
  \<and> (\<forall>k v. k \<in> set conditional_keys \<longrightarrow> map_of out k = Some v \<longrightarrow>
         v \<noteq> JNull \<and> (truthy v \<or> k = ''estimated_time''))
  \<and> (map_of d ''key'' = None \<longrightarrow> key r = [])
  \<and> (map_of d ''name'' = None \<longrightarrow> name r = [])
  \<and> (map_of d ''projectKey'' = None \<longrightarrow> project_key r = [])
  \<and> (map_of d ''status'' = None \<longrightarrow> status r = [])
  \<and> (map_of d ''priority'' = None \<longrightarrow> priority r = [])
  \<and> map_of out ''key'' =
       Some (JString (key r))
  \<and> map_of out ''name'' =
       Some (JString (name r))
  \<and> map_of out ''project_key'' =
       Some (JString (project_key r))
  \<and> map_of out ''status'' =
       Some (JString (status r))
  \<and> map_of out ''priority'' =
       Some (JString (priority r))
  \<and> map_of out ''folder'' =
       Some (case folder r of None \<Rightarrow> JNull | Some s \<Rightarrow> JString s)
  \<and> map_of out ''labels'' =
       Some (JArray (map JString (labels r)))
  \<and> map_of out ''created_on'' =
       Some (JString (format_timestamp L (created_on r)))
  \<and> map_of out ''last_modified_on'' =
       Some (JString (format_timestamp L (last_modified_on r)))
  \<and> map_of out ''component'' =
       (case component r of None \<Rightarrow> None | Some s \<Rightarrow> if s = [] then None else Some (JString s))
  \<and> map_of out ''owner'' =
       (case owner r of None \<Rightarrow> None | Some s \<Rightarrow> if s = [] then None else Some (JString s))
  \<and> map_of out ''estimated_time'' =
       (case estimated_time r of None \<Rightarrow> None | Some n \<Rightarrow> Some (JInt n))
  \<and> map_of out ''objective'' =
       (case objective r of None \<Rightarrow> None | Some s \<Rightarrow> if s = [] then None else Some (JString s))
  \<and> map_of out ''precondition'' =
       (case precondition r of None \<Rightarrow> None | Some s \<Rightarrow> if s = [] then None else Some (JString s))
  \<and> map_of out ''test_script'' =
       (case test_script r of None \<Rightarrow> None | Some c \<Rightarrow> if c = [] then None else Some (JObject c))
  \<and> map_of out ''parameters'' =
       (case parameters r of None \<Rightarrow> None | Some c \<Rightarrow> if c = [] then None else Some (JObject c))
  \<and> map_of out ''custom_fields'' =
       (if custom_fields r = [] then None else Some (JObject (custom_fields r)))
  \<and> map_of out ''issue_links'' =
       (if issue_links r = [] then None else Some (JArray (map JString (issue_links r))))
  \<and> map_of out ''created_by'' =
       (case created_by r of None \<Rightarrow> None | Some s \<Rightarrow> if s = [] then None else Some (JString s))
  \<and> map_of out ''last_modified_by'' =
       (case last_modified_by r of None \<Rightarrow> None | Some s \<Rightarrow> if s = [] then None else Some (JString s))"
proof -
  note omitted = absent_default_omitted [OF assms(1)]
    and kept = absent_default_kept [OF assms(1)]
  have guarded: "\<forall>k v. k \<in> set conditional_keys \<longrightarrow>
      map_of (ZephyrTestCase_to_simplified_dict L r) k = Some v \<longrightarrow>
      v \<noteq> JNull \<and> (truthy v \<or> k = ''estimated_time'')"
    by (intro allI impI) (rule conditional_entry_not_null)
  note required = required_defaults [OF assms(1)]
  show ?thesis
    unfolding assms(2)
    by (intro conjI;
        (rule guarded | rule simplified_explicit | (rule impI, rule omitted kept required, assumption)))
qed


lemma owned_parses:
  "ZephyrTestCase_from_api_response L (JObject owned_payload) = Inr owned_testcase"
  by (simp add: owned_payload_def owned_testcase_def login_payload_def login_testcase_def
      testcase_kwargs_def ZephyrTestCase_init_def dict_get_def EMPTY_STRING_def)

theorem defaults_and_omission_witness:
  "ZephyrTestCase_from_api_response plain_library (JObject owned_payload) = Inr owned_testcase
   \<and> map_of owned_payload ''component'' = None
   \<and> map_of (ZephyrTestCase_to_simplified_dict plain_library owned_testcase) ''component'' = None
   \<and> map_of owned_payload ''folder'' = None
   \<and> map_of (ZephyrTestCase_to_simplified_dict plain_library owned_testcase) ''folder'' = Some JNull
   \<and> ''owner'' \<in> set conditional_keys
   \<and> map_of (ZephyrTestCase_to_simplified_dict plain_library owned_testcase) ''owner'' =
       Some (JString ''alice'')
   \<and> truthy (JString ''alice'')
   \<and> ''estimated_time'' \<in> set conditional_keys
   \<and> map_of (ZephyrTestCase_to_simplified_dict plain_library owned_testcase) ''estimated_time'' =
       Some (JInt 0)
   \<and> JInt 0 \<noteq> JNull"
proof -
  let ?out = "ZephyrTestCase_to_simplified_dict plain_library owned_testcase"
  have absent: "map_of owned_payload ''component'' = None" "map_of owned_payload ''folder'' = None"
    by (simp_all add: owned_payload_def login_payload_def)
  have keys: "''owner'' \<in> set conditional_keys" "''estimated_time'' \<in> set conditional_keys"
    by (simp_all add: conditional_keys_def)
  have present: "map_of ?out ''owner'' = Some (JString ''alice'')"
    "map_of ?out ''estimated_time'' = Some (JInt 0)"
    by (simp_all add: simplified_lookup owned_testcase_def login_testcase_def simplified_defs)
  note facts = defaults_and_omission [OF owned_parses [of plain_library] refl]
  from facts have f1: "map_of owned_payload ''component'' = None \<longrightarrow>
      component owned_testcase = None \<and> map_of ?out ''component'' = None"
    by (elim conjE)
  from facts have f2: "map_of owned_payload ''folder'' = None \<longrightarrow>
      folder owned_testcase = None \<and> map_of ?out ''folder'' = Some JNull"
    by (elim conjE)
  from facts have f3: "\<forall>k v. k \<in> set conditional_keys \<longrightarrow> map_of ?out k = Some v \<longrightarrow>
         v \<noteq> JNull \<and> (truthy v \<or> k = ''estimated_time'')"
    by (elim conjE)
  have parses: "ZephyrTestCase_from_api_response plain_library (JObject owned_payload) =
      Inr owned_testcase"
    by (rule owned_parses)
  have c1: "map_of ?out ''component'' = None"
    using f1 [rule_format, OF absent(1)] by (rule conjunct2)
  have c2: "map_of ?out ''folder'' = Some JNull"
    using f2 [rule_format, OF absent(2)] by (rule conjunct2)
  have c3: "truthy (JString ''alice'')"
    using f3 [rule_format, OF keys(1) present(1)] by simp
  have c4: "JInt 0 \<noteq> JNull"
    using f3 [rule_format, OF keys(2) present(2)] by (rule conjunct1)
  show ?thesis
    by (intro conjI) (rule parses absent keys present c1 c2 c3 c4)+
qed

text \<open>Claim C2 as stated fails: \<^verbatim>\<open>folder\<close> is an optional field, the payload has no
  \<^verbatim>\<open>folder\<close> key, and the simplified dict holds \<^verbatim>\<open>folder\<close> with the value null.\<close>

theorem absent_folder_is_null_counterexample:
  "ZephyrTestCase_from_api_response plain_library (JObject login_payload) = Inr login_testcase
   \<and> map_of login_payload ''folder'' = None
   \<and> map_of (ZephyrTestCase_to_simplified_dict plain_library login_testcase) ''folder'' = Some JNull"
proof (intro conjI)
  show "ZephyrTestCase_from_api_response plain_library (JObject login_payload) = Inr login_testcase"
    by (rule login_parses)
  show "map_of login_payload ''folder'' = None"
    by (simp add: login_payload_def)
  show "map_of (ZephyrTestCase_to_simplified_dict plain_library login_testcase) ''folder'' = Some JNull"
    by (simp add: simplified_lookup(1) login_testcase_def simplified_defs)
qed

section \<open>Test step records\<close>











section \<open>The transport: what a request gives\<close>

lemma request_failure:
  assumes "request srv self m u ps js tr = (Inl e, tr1)"
  shows "isinstance_MCPAtlassianAuthenticationError e"
  using assms unfolding request_def get_auth_headers_def
  by (auto simp: Let_def split: if_splits http_outcome.splits)

lemma request_not_generic:
  assumes "request srv self m u ps js tr = (Inl e, tr1)"
  shows "\<not> isinstance_MCPAtlassianError e"
  using request_failure [OF assms] by (cases e) simp_all



lemma request_transport_failure:
  assumes "http_client self" and "api_token (config self) \<noteq> []"
    and "\<And>rq. srv tr rq = Transport_failure t"
  shows "fst (request srv self m u ps js tr) =
     Inl (MCPAtlassianAuthenticationError (''Request failed: '' @ t))"
  using assms unfolding request_def get_auth_headers_def
  by (simp add: Let_def)

lemma raise_for_status_ok:
  "200 \<le> status_code rsp \<Longrightarrow> status_code rsp \<le> 299 \<Longrightarrow> raise_for_status rsp = Inr ()"
  by (simp add: raise_for_status_def)

lemma raise_for_status_error:
  "\<not> (200 \<le> status_code rsp \<and> status_code rsp \<le> 299) \<Longrightarrow>
     raise_for_status rsp = Inl (HTTPStatusError (status_error_text rsp))"
  by (simp add: raise_for_status_def)

subsection \<open>Substrings\<close>

lemma starts_with_append: "starts_with k (k @ b)"
  by (induction k) simp_all

lemma contains_here: "contains k (k @ b)"
  by (cases "k @ b") (use starts_with_append [of k b] in \<open>auto\<close>)

lemma contains_append: "contains k (a @ k @ b)"
  by (induction a) (simp_all add: contains_here)

section \<open>Fetching a test case\<close>

lemma get_testcase_404:
  assumes "request srv self ''GET'' (''/testcase/'' @ k) (str_param ''fields'' f) None tr = (Inr rsp, tr1)"
    and "status_code rsp = 404"
  shows "get_testcase L srv self k f tr =
     (Inl (MCPAtlassianNotFoundError (''Test case '' @ k @ '' not found'')), tr1)"
  using assms unfolding get_testcase_def get_testcase_except_def by simp

lemma get_testcase_status_error:
  assumes "request srv self ''GET'' (''/testcase/'' @ k) (str_param ''fields'' f) None tr = (Inr rsp, tr1)"
    and "status_code rsp \<noteq> 404" and "\<not> (200 \<le> status_code rsp \<and> status_code rsp \<le> 299)"
  shows "get_testcase L srv self k f tr =
     (Inl (MCPAtlassianError (''Failed to get test case: '' @ status_error_text rsp)), tr1)"
  using assms unfolding get_testcase_def get_testcase_except_def
  by (simp add: raise_for_status_error)

lemma get_testcase_request_failure:
  assumes "request srv self ''GET'' (''/testcase/'' @ k) (str_param ''fields'' f) None tr = (Inl e, tr1)"
  shows "get_testcase L srv self k f tr =
     (Inl (MCPAtlassianError (''Failed to get test case: '' @ str_exn e)), tr1)"
  using assms request_not_generic [OF assms] unfolding get_testcase_def get_testcase_except_def
  by simp

lemma get_testcase_transport_failure:
  assumes "http_client self" and "api_token (config self) \<noteq> []"
    and "\<And>rq. srv tr rq = Transport_failure t"
  shows "fst (get_testcase L srv self k f tr) =
     Inl (MCPAtlassianError (''Failed to get test case: Request failed: '' @ t))"
proof -
  obtain e tr1 where
    r: "request srv self ''GET'' (''/testcase/'' @ k) (str_param ''fields'' f) None tr = (e, tr1)"
    by (cases "request srv self ''GET'' (''/testcase/'' @ k) (str_param ''fields'' f) None tr")
  with request_transport_failure [where srv = srv and tr = tr and t = t and self = self
      and m = "''GET''" and u = "''/testcase/'' @ k" and ps = "str_param ''fields'' f" and js = None,
      OF assms]
  have "e = Inl (MCPAtlassianAuthenticationError (''Request failed: '' @ t))" by simp
  with r get_testcase_request_failure [of srv self k f tr _ tr1 L] show ?thesis by simp
qed

text \<open>
  Claim C8. When the response to the GET of \<^verbatim>\<open>get_testcase\<close> has status 404, the
  function raises \<^verbatim>\<open>MCPAtlassianNotFoundError\<close> with the text "Test case <key> not
  found", which contains the requested key; any other status outside 2xx and a
  failure of the transport raise the generic \<^verbatim>\<open>MCPAtlassianError\<close> with the text
  "Failed to get test case: ..." instead.
\<close>

theorem get_testcase_not_found:
  "(request srv self ''GET'' (''/testcase/'' @ k) (str_param ''fields'' f) None tr = (Inr rsp, tr1) \<longrightarrow>
      (status_code rsp = 404 \<longrightarrow>
         get_testcase L srv self k f tr =
           (Inl (MCPAtlassianNotFoundError (''Test case '' @ k @ '' not found'')), tr1)
         \<and> contains k (''Test case '' @ k @ '' not found''))
      \<and> (status_code rsp \<noteq> 404 \<and> \<not> (200 \<le> status_code rsp \<and> status_code rsp \<le> 299) \<longrightarrow>
         get_testcase L srv self k f tr =
           (Inl (MCPAtlassianError (''Failed to get test case: '' @ status_error_text rsp)), tr1)))
   \<and> (http_client self \<and> api_token (config self) \<noteq> [] \<and> (\<forall>rq. srv tr rq = Transport_failure t) \<longrightarrow>
        fst (get_testcase L srv self k f tr) =
          Inl (MCPAtlassianError (''Failed to get test case: Request failed: '' @ t)))"
proof (intro conjI impI)
  assume "request srv self ''GET'' (''/testcase/'' @ k) (str_param ''fields'' f) None tr = (Inr rsp, tr1)"
    and "status_code rsp = 404"
  then show "get_testcase L srv self k f tr =
           (Inl (MCPAtlassianNotFoundError (''Test case '' @ k @ '' not found'')), tr1)"
    by (rule get_testcase_404)
next
  show "contains k (''Test case '' @ k @ '' not found'')"
    by (rule contains_append)
next
  assume "request srv self ''GET'' (''/testcase/'' @ k) (str_param ''fields'' f) None tr = (Inr rsp, tr1)"
    and "status_code rsp \<noteq> 404 \<and> \<not> (200 \<le> status_code rsp \<and> status_code rsp \<le> 299)"
  then show "get_testcase L srv self k f tr =
           (Inl (MCPAtlassianError (''Failed to get test case: '' @ status_error_text rsp)), tr1)"
    using get_testcase_status_error by blast
next
  assume "http_client self \<and> api_token (config self) \<noteq> [] \<and> (\<forall>rq. srv tr rq = Transport_failure t)"
  then show "fst (get_testcase L srv self k f tr) =
          Inl (MCPAtlassianError (''Failed to get test case: Request failed: '' @ t))"
    using get_testcase_transport_failure by blast
qed

lemma demo_request:
  "request (constant_remote rsp) demo_client m u ps js [] =
     (Inr rsp, [\<lparr> http_method = m, url = u, params = ps, json_payload = js,
                  headers = [(''Authorization'', ''Bearer secret-token''),
                             (''Content-Type'', ''application/json'')] \<rparr>])"
  by (simp add: request_def demo_client_def get_auth_headers_def constant_remote_def)

theorem get_testcase_not_found_witness:
  "status_code (json_response 404 JNull) = 404
   \<and> fst (get_testcase plain_library (constant_remote (json_response 404 JNull)) demo_client
            ''JQA-T1234'' None []) =
       Inl (MCPAtlassianNotFoundError ''Test case JQA-T1234 not found'')
   \<and> fst (get_testcase plain_library (constant_remote (json_response 500 JNull)) demo_client
            ''JQA-T1234'' None []) =
       Inl (MCPAtlassianError ''Failed to get test case: status error'')
   \<and> fst (get_testcase plain_library failing_remote demo_client ''JQA-T1234'' None []) =
       Inl (MCPAtlassianError ''Failed to get test case: Request failed: timed out'')"
proof -
  let ?rq = "\<lparr> http_method = ''GET'', url = ''/testcase/JQA-T1234'', params = [],
               json_payload = None,
               headers = [(''Authorization'', ''Bearer secret-token''),
                          (''Content-Type'', ''application/json'')] \<rparr>"
  have r404: "request (constant_remote (json_response 404 JNull)) demo_client ''GET''
      (''/testcase/'' @ ''JQA-T1234'') (str_param ''fields'' None) None [] =
      (Inr (json_response 404 JNull), [?rq])"
    by (simp add: demo_request str_param_def)
  have r500: "request (constant_remote (json_response 500 JNull)) demo_client ''GET''
      (''/testcase/'' @ ''JQA-T1234'') (str_param ''fields'' None) None [] =
      (Inr (json_response 500 JNull), [?rq])"
    by (simp add: demo_request str_param_def)
  have s404: "status_code (json_response 404 JNull) = 404"
    by (simp add: json_response_def)
  have s500: "status_code (json_response 500 JNull) \<noteq> 404
      \<and> \<not> (200 \<le> status_code (json_response 500 JNull) \<and> status_code (json_response 500 JNull) \<le> 299)"
    by (simp add: json_response_def)
  have down: "http_client demo_client \<and> api_token (config demo_client) \<noteq> []
      \<and> (\<forall>rq. failing_remote [] rq = Transport_failure ''timed out'')"
    by (simp add: demo_client_def failing_remote_def)
  have a: "get_testcase plain_library (constant_remote (json_response 404 JNull)) demo_client
            ''JQA-T1234'' None [] =
       (Inl (MCPAtlassianNotFoundError (''Test case '' @ ''JQA-T1234'' @ '' not found'')), [?rq])"
    by (rule get_testcase_not_found [THEN conjunct1, THEN mp, OF r404, THEN conjunct1, THEN mp,
          OF s404, THEN conjunct1])
  have b: "get_testcase plain_library (constant_remote (json_response 500 JNull)) demo_client
            ''JQA-T1234'' None [] =
       (Inl (MCPAtlassianError (''Failed to get test case: ''
               @ status_error_text (json_response 500 JNull))), [?rq])"
    by (rule get_testcase_not_found [THEN conjunct1, THEN mp, OF r500, THEN conjunct2, THEN mp,
          OF s500])
  have c: "fst (get_testcase plain_library failing_remote demo_client ''JQA-T1234'' None []) =
       Inl (MCPAtlassianError (''Failed to get test case: Request failed: '' @ ''timed out''))"
    by (rule get_testcase_not_found [where srv = failing_remote and tr = "[]"
          and t = "''timed out''" and self = demo_client, THEN conjunct2, THEN mp, OF down])
  show ?thesis
    using a b c s404 by (simp add: json_response_def)
qed

section \<open>Searching test cases\<close>

lemma parse_test_cases_eq:
  "parse_test_cases L xs =
     map projr (filter (\<lambda>x. \<not> isl x) (map (ZephyrTestCase_from_api_response L) xs))"
  by (induction xs) (auto split: sum.splits)

lemma parse_test_cases_length:
  "length (parse_test_cases L xs) =
     length (filter (\<lambda>v. \<not> isl (ZephyrTestCase_from_api_response L v)) xs)"
  by (induction xs) (auto split: sum.splits)

lemma parse_test_cases_one_malformed:
  assumes "length (filter (\<lambda>v. isl (ZephyrTestCase_from_api_response L v)) xs) = 1"
  shows "length (parse_test_cases L xs) + 1 = length xs"
  using assms sum_length_filter_compl [of "\<lambda>v. isl (ZephyrTestCase_from_api_response L v)" xs]
  by (simp add: parse_test_cases_length)

lemma search_testcases_parses:
  assumes "request srv self ''GET'' ''/testcase/search'' (search_params q f s m) None tr = (Inr rsp, tr1)"
    and "200 \<le> status_code rsp" and "status_code rsp \<le> 299"
    and "json_body rsp = Inr (JArray xs)
         \<or> (\<exists>d. json_body rsp = Inr (JObject d) \<and> map_of d ''results'' = Some (JArray xs))"
  shows "search_testcases L srv self q f s m tr = (Inr (parse_test_cases L xs), tr1)"
proof -
  from assms(4) have "\<exists>b. response_json rsp = Inr b \<and> test_case_data_list b = Inr (JArray xs)"
    by (auto simp: response_json_def dict_get_def)
  then obtain b where "response_json rsp = Inr b" "test_case_data_list b = Inr (JArray xs)"
    by blast
  with assms(1-3) show ?thesis
    unfolding search_testcases_def by (simp add: raise_for_status_ok)
qed

lemma search_testcases_tool_count:
  assumes "search_testcases L srv self q f s m tr = (Inr tcs, tr1)"
  shows "search_testcases_tool L srv (Inr self) q f s m tr =
      ([(''success'', JBool True),
        (''test_cases'', JArray (map (\<lambda>tc. JObject (ZephyrTestCase_to_simplified_dict L tc)) tcs)),
        (''count'', JInt (int (length tcs)))], tr1)"
  using assms unfolding search_testcases_tool_def by (simp add: Let_def)

text \<open>
  Claim C1. When the search response is a 2xx whose body is an array, or a dict holding
  an array under \<^verbatim>\<open>results\<close>, \<^verbatim>\<open>search_testcases\<close> returns (it does not raise) the
  records of the elements that parse, in order, one per well-formed element, each
  malformed element skipped on its own: with exactly one malformed element the list
  is one shorter than the array (three records from four elements, two from three).
  The tool reports as \<^verbatim>\<open>count\<close> the length of the list it returns.
\<close>

theorem search_skips_malformed:
  assumes "request srv self ''GET'' ''/testcase/search'' (search_params q f s m) None tr = (Inr rsp, tr1)"
    and "200 \<le> status_code rsp" and "status_code rsp \<le> 299"
    and "json_body rsp = Inr (JArray xs)
         \<or> (\<exists>d. json_body rsp = Inr (JObject d) \<and> map_of d ''results'' = Some (JArray xs))"
  shows "\<exists>tcs. search_testcases L srv self q f s m tr = (Inr tcs, tr1)
      \<and> tcs = map projr (filter (\<lambda>x. \<not> isl x) (map (ZephyrTestCase_from_api_response L) xs))
      \<and> length tcs = length (filter (\<lambda>v. \<not> isl (ZephyrTestCase_from_api_response L v)) xs)
      \<and> (length (filter (\<lambda>v. isl (ZephyrTestCase_from_api_response L v)) xs) = 1 \<longrightarrow>
           length tcs + 1 = length xs)
      \<and> search_testcases_tool L srv (Inr self) q f s m tr =
          ([(''success'', JBool True),
            (''test_cases'', JArray (map (\<lambda>tc. JObject (ZephyrTestCase_to_simplified_dict L tc)) tcs)),
            (''count'', JInt (int (length tcs)))], tr1)"
proof (intro exI conjI impI)
  show a: "search_testcases L srv self q f s m tr = (Inr (parse_test_cases L xs), tr1)"
    using assms by (rule search_testcases_parses)
  show "parse_test_cases L xs =
      map projr (filter (\<lambda>x. \<not> isl x) (map (ZephyrTestCase_from_api_response L) xs))"
    by (rule parse_test_cases_eq)
  show "length (parse_test_cases L xs) =
      length (filter (\<lambda>v. \<not> isl (ZephyrTestCase_from_api_response L v)) xs)"
    by (rule parse_test_cases_length)
  show "length (parse_test_cases L xs) + 1 = length xs"
    if "length (filter (\<lambda>v. isl (ZephyrTestCase_from_api_response L v)) xs) = 1"
    using that by (rule parse_test_cases_one_malformed)
  show "search_testcases_tool L srv (Inr self) q f s m tr =
          ([(''success'', JBool True),
            (''test_cases'', JArray (map (\<lambda>tc. JObject (ZephyrTestCase_to_simplified_dict L tc))
                (parse_test_cases L xs))),
            (''count'', JInt (int (length (parse_test_cases L xs))))], tr1)"
    using a by (rule search_testcases_tool_count)
qed


lemma not_a_dict: "isl (ZephyrTestCase_from_api_response L (JString t))"
  by simp

theorem search_skips_malformed_witness:
  "length four_elements = 4
   \<and> length (filter (\<lambda>v. isl (ZephyrTestCase_from_api_response plain_library v)) four_elements) = 1
   \<and> fst (search_testcases plain_library
            (constant_remote (json_response 200 (JArray four_elements))) demo_client
            None None 0 200 []) = Inr [login_testcase, owned_testcase, login_testcase]
   \<and> map_of (fst (search_testcases_tool plain_library
            (constant_remote (json_response 200 (JArray four_elements))) (Inr demo_client)
            None None 0 200 [])) ''count'' = Some (JInt 3)"
proof -
  let ?rsp = "json_response 200 (JArray four_elements)"
  let ?rq = "\<lparr> http_method = ''GET'', url = ''/testcase/search'',
               params = search_params None None 0 200, json_payload = None,
               headers = [(''Authorization'', ''Bearer secret-token''),
                          (''Content-Type'', ''application/json'')] \<rparr>"
  have rq: "request (constant_remote ?rsp) demo_client ''GET'' ''/testcase/search''
      (search_params None None 0 200) None [] = (Inr ?rsp, [?rq])"
    by (rule demo_request)
  have ok: "200 \<le> status_code ?rsp" "status_code ?rsp \<le> 299"
    by (simp_all add: json_response_def)
  have body: "json_body ?rsp = Inr (JArray four_elements)
      \<or> (\<exists>d. json_body ?rsp = Inr (JObject d) \<and> map_of d ''results'' = Some (JArray four_elements))"
    by (simp add: json_response_def)
  have len: "length four_elements = 4"
    by (simp add: four_elements_def)
  have one: "length (filter (\<lambda>v. isl (ZephyrTestCase_from_api_response plain_library v))
      four_elements) = 1"
    unfolding four_elements_def by (simp add: login_parses owned_parses not_a_dict del: ZephyrTestCase_from_api_response.simps)
  have parsed: "map projr (filter (\<lambda>x. \<not> isl x)
      (map (ZephyrTestCase_from_api_response plain_library) four_elements)) =
      [login_testcase, owned_testcase, login_testcase]"
    unfolding four_elements_def by (simp add: login_parses owned_parses not_a_dict del: ZephyrTestCase_from_api_response.simps)
  from search_skips_malformed [OF rq ok body, of plain_library]
  obtain tcs where
    r: "search_testcases plain_library (constant_remote ?rsp) demo_client None None 0 200 [] =
        (Inr tcs, [?rq])"
    and e: "tcs = map projr (filter (\<lambda>x. \<not> isl x)
        (map (ZephyrTestCase_from_api_response plain_library) four_elements))"
    and t: "search_testcases_tool plain_library (constant_remote ?rsp) (Inr demo_client)
        None None 0 200 [] =
        ([(''success'', JBool True),
          (''test_cases'', JArray (map (\<lambda>tc. JObject
              (ZephyrTestCase_to_simplified_dict plain_library tc)) tcs)),
          (''count'', JInt (int (length tcs)))], [?rq])"
    by blast
  from e parsed have tcs: "tcs = [login_testcase, owned_testcase, login_testcase]"
    by simp
  have c1: "fst (search_testcases plain_library (constant_remote ?rsp) demo_client
      None None 0 200 []) = Inr [login_testcase, owned_testcase, login_testcase]"
    by (simp add: r tcs)
  have c2: "map_of (fst (search_testcases_tool plain_library (constant_remote ?rsp)
      (Inr demo_client) None None 0 200 [])) ''count'' = Some (JInt 3)"
    by (simp add: t tcs)
  show ?thesis
    by (intro conjI) (rule len one c1 c2)+
qed

section \<open>The except clauses of the resource operations\<close>















subsection \<open>What each operation does with the response\<close>


lemma py_get_error_untyped:
  assumes "py_get j k dflt = Inl x"
  shows "\<not> isinstance_MCPAtlassianError x"
  using assms by (cases j) (auto simp: no_attribute_get_def)





lemma get_testcase_ok:
  assumes "request srv self ''GET'' (''/testcase/'' @ k) (str_param ''fields'' f) None tr = (Inr rsp, tr1)"
    and "200 \<le> status_code rsp \<and> status_code rsp \<le> 299" and "json_body rsp = Inr j"
    and "ZephyrTestCase_from_api_response L j = Inr r"
  shows "get_testcase L srv self k f tr = (Inr r, tr1)"
  using assms unfolding get_testcase_def
  by (simp add: raise_for_status_def response_json_def)





















section \<open>Reading the steps of a test case\<close>


lemma get_test_steps_extract:
  assumes "request srv self ''GET'' (''/rest/atm/1.0/testcase/'' @ issue)
             [(''fields'', JString ''key,name,testScript'')] None tr = (Inr rsp, tr1)"
    and "200 \<le> status_code rsp" and "status_code rsp \<le> 299"
    and "json_body rsp = Inr d"
    and "extract_steps L d = Inr ss"
  shows "get_test_steps L srv self issue project tr =
           (Inr \<lparr> issue_id = issue, project_id = project, steps = ss \<rparr>, tr1)"
  using assms unfolding get_test_steps_def
  by (simp add: raise_for_status_ok response_json_def)

lemma plain_text_step:
  "TestStep_init L [(''order_id'', JInt 1), (''step'', JString t), (''data'', JString []),
                    (''result'', JString []), (''step_id'', JNull)] =
     Inr \<lparr> order_id = 1, step = t, data = [], result = [], step_id = None \<rparr>"
  by (simp add: TestStep_init_def dict_get_def)

lemma extract_plain_text:
  assumes "map_of b ''testScript'' = Some (JObject sc)"
    and "map_of sc ''type'' = Some (JString ''PLAIN_TEXT'')"
    and "map_of sc ''text'' = Some (JString t)" and "t \<noteq> []"
  shows "extract_steps L (JObject b) =
     Inr [\<lparr> order_id = 1, step = t, data = [], result = [], step_id = None \<rparr>]"
proof -
  from assms(2) have "sc \<noteq> []" by auto
  with assms show ?thesis
    unfolding extract_steps_def by (simp add: dict_get_def plain_text_step)
qed

lemma extract_plain_text_empty:
  assumes "map_of b ''testScript'' = Some (JObject sc)"
    and "map_of sc ''type'' = Some (JString ''PLAIN_TEXT'')"
    and "map_of sc ''text'' = None \<or> map_of sc ''text'' = Some (JString [])"
  shows "extract_steps L (JObject b) = Inr []"
  using assms unfolding extract_steps_def by (auto simp: dict_get_def)

lemma extract_other_type:
  assumes "map_of b ''testScript'' = Some (JObject sc)"
    and "map_of sc ''type'' \<noteq> Some (JString ''STEP_BY_STEP'')"
    and "map_of sc ''type'' \<noteq> Some (JString ''PLAIN_TEXT'')"
  shows "extract_steps L (JObject b) = Inr []"
  using assms unfolding extract_steps_def
  by (auto simp: dict_get_def split: option.splits)

lemma extract_no_script:
  assumes "map_of b ''testScript'' = None"
  shows "extract_steps L (JObject b) = Inr []"
  using assms unfolding extract_steps_def by (simp add: dict_get_def)

text \<open>
  Claim C7, as amended. For a test case whose fetched script is a dict of type
  \<^verbatim>\<open>PLAIN_TEXT\<close> with a non-empty string as text, \<^verbatim>\<open>get_test_steps\<close> gives exactly one
  step: \<^verbatim>\<open>order_id\<close> 1, the whole text as \<^verbatim>\<open>step\<close>, empty \<^verbatim>\<open>data\<close> and \<^verbatim>\<open>result\<close>, no
  \<^verbatim>\<open>step_id\<close>. With an empty or absent text it gives no step. A script dict whose type
  is neither \<^verbatim>\<open>STEP_BY_STEP\<close> nor \<^verbatim>\<open>PLAIN_TEXT\<close> (or is absent), and an absent script,
  give an empty step sequence.
\<close>

theorem plain_text_single_step:
  assumes "request srv self ''GET'' (''/rest/atm/1.0/testcase/'' @ issue)
             [(''fields'', JString ''key,name,testScript'')] None tr = (Inr rsp, tr1)"
    and "200 \<le> status_code rsp" and "status_code rsp \<le> 299"
    and "json_body rsp = Inr (JObject b)"
  shows
   "(map_of b ''testScript'' = Some (JObject sc)
       \<and> map_of sc ''type'' = Some (JString ''PLAIN_TEXT'')
       \<and> map_of sc ''text'' = Some (JString t) \<and> t \<noteq> [] \<longrightarrow>
      get_test_steps L srv self issue project tr =
        (Inr \<lparr> issue_id = issue, project_id = project,
               steps = [\<lparr> order_id = 1, step = t, data = [], result = [], step_id = None \<rparr>] \<rparr>,
         tr1))
    \<and> (map_of b ''testScript'' = Some (JObject sc)
       \<and> map_of sc ''type'' = Some (JString ''PLAIN_TEXT'')
       \<and> (map_of sc ''text'' = None \<or> map_of sc ''text'' = Some (JString [])) \<longrightarrow>
      get_test_steps L srv self issue project tr =
        (Inr \<lparr> issue_id = issue, project_id = project, steps = [] \<rparr>, tr1))
    \<and> (map_of b ''testScript'' = Some (JObject sc)
       \<and> map_of sc ''type'' \<noteq> Some (JString ''STEP_BY_STEP'')
       \<and> map_of sc ''type'' \<noteq> Some (JString ''PLAIN_TEXT'') \<longrightarrow>
      get_test_steps L srv self issue project tr =
        (Inr \<lparr> issue_id = issue, project_id = project, steps = [] \<rparr>, tr1))
    \<and> (map_of b ''testScript'' = None \<longrightarrow>
      get_test_steps L srv self issue project tr =
        (Inr \<lparr> issue_id = issue, project_id = project, steps = [] \<rparr>, tr1))"
proof (intro conjI impI)
  note get = get_test_steps_extract [OF assms]
  show "get_test_steps L srv self issue project tr =
        (Inr \<lparr> issue_id = issue, project_id = project,
               steps = [\<lparr> order_id = 1, step = t, data = [], result = [], step_id = None \<rparr>] \<rparr>,
         tr1)"
    if "map_of b ''testScript'' = Some (JObject sc)
       \<and> map_of sc ''type'' = Some (JString ''PLAIN_TEXT'')
       \<and> map_of sc ''text'' = Some (JString t) \<and> t \<noteq> []"
    using that by (elim conjE) (rule get, rule extract_plain_text [of b sc], assumption+)
  show "get_test_steps L srv self issue project tr =
        (Inr \<lparr> issue_id = issue, project_id = project, steps = [] \<rparr>, tr1)"
    if "map_of b ''testScript'' = Some (JObject sc)
       \<and> map_of sc ''type'' = Some (JString ''PLAIN_TEXT'')
       \<and> (map_of sc ''text'' = None \<or> map_of sc ''text'' = Some (JString []))"
    using that by (elim conjE) (rule get, rule extract_plain_text_empty [of b sc], assumption+)
  show "get_test_steps L srv self issue project tr =
        (Inr \<lparr> issue_id = issue, project_id = project, steps = [] \<rparr>, tr1)"
    if "map_of b ''testScript'' = Some (JObject sc)
       \<and> map_of sc ''type'' \<noteq> Some (JString ''STEP_BY_STEP'')
       \<and> map_of sc ''type'' \<noteq> Some (JString ''PLAIN_TEXT'')"
    using that by (elim conjE) (rule get, rule extract_other_type [of b sc], assumption+)
  show "get_test_steps L srv self issue project tr =
        (Inr \<lparr> issue_id = issue, project_id = project, steps = [] \<rparr>, tr1)"
    if "map_of b ''testScript'' = None"
    using that by - (rule get, rule extract_no_script, assumption)
qed


theorem plain_text_single_step_witness:
  "fst (get_test_steps plain_library (constant_remote (json_response 200 (plain_text_body ''Do X'')))
          demo_client ''JQA-T1'' ''10000'' []) =
     Inr \<lparr> issue_id = ''JQA-T1'', project_id = ''10000'',
            steps = [\<lparr> order_id = 1, step = ''Do X'', data = [], result = [], step_id = None \<rparr>] \<rparr>
   \<and> fst (get_test_steps plain_library (constant_remote (json_response 200 bdd_body))
          demo_client ''JQA-T1'' ''10000'' []) =
     Inr \<lparr> issue_id = ''JQA-T1'', project_id = ''10000'', steps = [] \<rparr>"
proof -
  let ?sc = "[(''type'', JString ''PLAIN_TEXT''), (''text'', JString ''Do X'')]"
  let ?b = "[(''key'', JString ''JQA-T1''), (''testScript'', JObject ?sc)]"
  let ?bdd = "[(''type'', JString ''BDD''), (''text'', JString ''Given X'')]"
  let ?c = "[(''key'', JString ''JQA-T1''), (''testScript'', JObject ?bdd)]"
  let ?rq = "\<lparr> http_method = ''GET'', url = ''/rest/atm/1.0/testcase/'' @ ''JQA-T1'',
               params = [(''fields'', JString ''key,name,testScript'')], json_payload = None,
               headers = [(''Authorization'', ''Bearer secret-token''),
                          (''Content-Type'', ''application/json'')] \<rparr>"
  have rq: "request (constant_remote (json_response 200 body)) demo_client ''GET''
      (''/rest/atm/1.0/testcase/'' @ ''JQA-T1'') [(''fields'', JString ''key,name,testScript'')]
      None [] = (Inr (json_response 200 body), [?rq])" for body
    by (rule demo_request)
  have ok: "200 \<le> status_code (json_response 200 body)"
    "status_code (json_response 200 body) \<le> 299" for body
    by (simp_all add: json_response_def)
  have b1: "json_body (json_response 200 (plain_text_body ''Do X'')) = Inr (JObject ?b)"
    by (simp add: json_response_def plain_text_body_def)
  have b2: "json_body (json_response 200 bdd_body) = Inr (JObject ?c)"
    by (simp add: json_response_def bdd_body_def)
  have h1: "map_of ?b ''testScript'' = Some (JObject ?sc)
       \<and> map_of ?sc ''type'' = Some (JString ''PLAIN_TEXT'')
       \<and> map_of ?sc ''text'' = Some (JString ''Do X'') \<and> ''Do X'' \<noteq> []"
    by simp
  have h2: "map_of ?c ''testScript'' = Some (JObject ?bdd)
       \<and> map_of ?bdd ''type'' \<noteq> Some (JString ''STEP_BY_STEP'')
       \<and> map_of ?bdd ''type'' \<noteq> Some (JString ''PLAIN_TEXT'')"
    by simp
  have c1: "get_test_steps plain_library (constant_remote (json_response 200 (plain_text_body ''Do X'')))
          demo_client ''JQA-T1'' ''10000'' [] =
     (Inr \<lparr> issue_id = ''JQA-T1'', project_id = ''10000'',
            steps = [\<lparr> order_id = 1, step = ''Do X'', data = [], result = [], step_id = None \<rparr>] \<rparr>,
      [?rq])"
    by (rule plain_text_single_step [OF rq ok b1, THEN conjunct1, THEN mp, OF h1])
  have c2: "get_test_steps plain_library (constant_remote (json_response 200 bdd_body))
          demo_client ''JQA-T1'' ''10000'' [] =
     (Inr \<lparr> issue_id = ''JQA-T1'', project_id = ''10000'', steps = [] \<rparr>, [?rq])"
    by (rule plain_text_single_step [OF rq ok b2, THEN conjunct2, THEN conjunct2, THEN conjunct1,
          THEN mp, OF h2])
  show ?thesis
    by (simp add: c1 c2)
qed

text \<open>Claim C7 as stated fails: a script of type \<^verbatim>\<open>PLAIN_TEXT\<close> whose text is empty
  yields no step at all, not one step.\<close>

theorem empty_plain_text_counterexample:
  "fst (get_test_steps plain_library (constant_remote (json_response 200 (plain_text_body [])))
          demo_client ''JQA-T1'' ''10000'' []) =
     Inr \<lparr> issue_id = ''JQA-T1'', project_id = ''10000'', steps = [] \<rparr>"
proof -
  have "extract_steps plain_library (plain_text_body []) = Inr []"
    unfolding plain_text_body_def
    by (rule extract_plain_text_empty
          [where sc = "[(''type'', JString ''PLAIN_TEXT''), (''text'', JString [])]"]) simp_all
  then show ?thesis
    by (simp add: get_test_steps_def demo_request json_response_def raise_for_status_def
        response_json_def)
qed

section \<open>Adding steps to a test case\<close>




subsection \<open>The numbering of the steps read and of the steps added\<close>












subsection \<open>Reading back the script that is written\<close>





subsection \<open>Evaluation on a test case of two steps\<close>







subsection \<open>A test case that is not found\<close>











end
